theory Spec2Isabelle
  imports Complex_Main "HOL-Library.Char_ord" "HOL-Library.List_Lexorder"
    "HOL-Library.Multiset"
begin

section \<open>Values\<close>

text \<open>
  A Python or numpy float. Finite values carry their exact value; the two infinities and
  NaN are values of their own, because the code tests for NaN (\<open>np.isnan\<close>) and compares
  coordinates that a query string may set to \<open>inf\<close> or \<open>nan\<close>. \<open>float(x)\<close> of a numpy
  float32 is exact, so it is the identity here.
\<close>

datatype pyfloat = Fin real | PosInf | NegInf | NaN

fun isnan :: "pyfloat \<Rightarrow> bool" where
  "isnan NaN = True"
| "isnan _ = False"

text \<open>\<open>a <= b\<close> on floats: false as soon as one side is NaN.\<close>

fun fle :: "pyfloat \<Rightarrow> pyfloat \<Rightarrow> bool" where
  "fle NaN _ = False"
| "fle _ NaN = False"
| "fle NegInf _ = True"
| "fle _ PosInf = True"
| "fle (Fin a) (Fin b) = (a \<le> b)"
| "fle (Fin a) NegInf = False"
| "fle PosInf (Fin b) = False"
| "fle PosInf NegInf = False"

datatype error =
    ValueError string
  | Exception string
  | IntegrityError string
  | OverflowError string

text \<open>\<open>str(e)\<close>: the message of an exception.\<close>

fun error_str :: "error \<Rightarrow> string" where
  "error_str (ValueError m) = m"
| "error_str (Exception m) = m"
| "error_str (IntegrityError m) = m"
| "error_str (OverflowError m) = m"

section \<open>The response of the weather API\<close>

text \<open>
  \<open>Variables\<close> holds, for each hourly variable, the array \<open>ValuesAsNumpy()\<close> returns;
  \<open>VariablesLength()\<close> is its length. \<open>Hourly\<close> is \<open>None\<close> when the response has no hourly
  block.
\<close>

record hourly =
  Time :: int
  TimeEnd :: int
  Interval :: int
  Variables :: "pyfloat list list"

record api_response =
  Latitude :: pyfloat
  Longitude :: pyfloat
  Elevation :: pyfloat
  UtcOffsetSeconds :: int
  Hourly :: "hourly option"

text \<open>The query parameters of one API request (the constant ones are left out).\<close>

record params =
  p_latitude :: pyfloat
  p_longitude :: pyfloat
  p_start_date :: string
  p_end_date :: string

section \<open>Rows of the weather table and data frames\<close>

text \<open>
  A row of \<open>weather_data\<close>. The columns declared \<open>NOT NULL\<close> hold a value, the two others
  may hold \<open>NULL\<close>.
\<close>

record row =
  row_id :: nat
  row_timestamp :: string
  row_latitude :: pyfloat
  row_longitude :: pyfloat
  row_temperature_2m :: "pyfloat option"
  row_relative_humidity_2m :: "pyfloat option"
  row_created_at :: string

text \<open>The interpolated parts of the HTML template of the PDF report, in document order.\<close>

record report_html =
  html_location :: string
  html_date_range :: string
  html_hours_covered :: int
  html_generated_at :: string
  html_total_records :: nat
  html_chart :: string
  html_statistics :: "(string \<times> string \<times> string) list"

section \<open>The environment of the service\<close>

text \<open>
  What the code calls and this repository does not define is a field of the environment:
  \<^item> \<open>fromtimestamp_isoformat t\<close> is \<open>datetime.fromtimestamp(t).isoformat()\<close>, which raises
    for a timestamp outside the platform's range;
  \<^item> \<open>py_round x n\<close> is Python's \<open>round(x, n)\<close> on a float;
  \<^item> \<open>date_params days\<close> is the pair of ISO dates \<open>(today - days, today)\<close>, and \<open>None\<close> when
    \<open>timedelta\<close> or the subtraction raises \<open>OverflowError\<close>;
  \<^item> \<open>direct_request\<close> is \<open>requests.get\<close>: the status code or the exception raised;
    \<open>direct_inspect\<close> is what decoding and inspecting the JSON body of a 200 answer raises,
    if anything;
  \<^item> \<open>weather_api\<close> is the call of the Open-Meteo client;
  \<^item> \<open>current_timestamp n\<close> is SQLite's \<open>CURRENT_TIMESTAMP\<close> at the insertion of row \<open>n\<close>;
  \<^item> \<open>sql_datetime\<close> is SQLite's \<open>datetime(text)\<close> (\<open>NULL\<close> when the text is no date) and
    \<open>sql_now_minus_hours h\<close> is \<open>datetime('now', '-h hours')\<close>;
  \<^item> \<open>to_datetime\<close> is \<open>pd.to_datetime\<close> on one timestamp, as a number of nanoseconds;
  \<^item> \<open>float_mean vs\<close> is the mean pandas computes in float64 arithmetic of the values \<open>vs\<close>
    of a column, in the order of the column (at least one value);
  \<^item> \<open>format_float n x\<close> is \<open>f"{x:.nf}"\<close>; \<open>strftime_minute\<close> and \<open>now_string\<close> are the two
    \<open>strftime\<close> calls of the PDF metadata;
  \<^item> \<open>create_weather_chart\<close> is the matplotlib chart (the empty string when it fails),
    \<open>write_pdf\<close> is WeasyPrint and \<open>write_excel\<close> is the openpyxl writer.
\<close>

record env =
  fromtimestamp_isoformat :: "int \<Rightarrow> error + string"
  py_round :: "pyfloat \<Rightarrow> nat \<Rightarrow> pyfloat"
  date_params :: "int \<Rightarrow> (string \<times> string) option"
  direct_request :: "params \<Rightarrow> error + nat"
  direct_inspect :: "params \<Rightarrow> error option"
  weather_api :: "params \<Rightarrow> error + api_response list"
  current_timestamp :: "nat \<Rightarrow> string"
  sql_datetime :: "string \<Rightarrow> string option"
  sql_now_minus_hours :: "int \<Rightarrow> string option"
  to_datetime :: "string \<Rightarrow> error + int"
  float_mean :: "pyfloat list \<Rightarrow> pyfloat"
  format_float :: "nat \<Rightarrow> pyfloat \<Rightarrow> string"
  strftime_minute :: "int \<Rightarrow> string"
  now_string :: string
  create_weather_chart :: "(int \<times> row) list \<Rightarrow> string"
  write_pdf :: "report_html \<Rightarrow> error + string"
  write_excel :: "(int \<times> pyfloat option \<times> pyfloat option) list \<Rightarrow> error + string"

section \<open>Records\<close>

text \<open>
  The dict built for one observation. A value that may be \<open>None\<close> in Python is an option.
\<close>

record weather_record =
  timestamp :: "string option"
  temperature_2m :: "pyfloat option"
  relative_humidity_2m :: "pyfloat option"
  latitude :: "pyfloat option"
  longitude :: "pyfloat option"

record metadata =
  md_latitude :: pyfloat
  md_longitude :: pyfloat
  md_elevation :: pyfloat
  md_timezone_offset :: int
  total_records :: nat
  valid_records :: nat
  date_range_start :: "string option"
  date_range_end :: "string option"

record fetch_result =
  status :: string
  meta :: metadata
  data :: "weather_record list"
  sample_data :: "weather_record list"

section \<open>Python's range\<close>

text \<open>The number of elements of \<open>range(start, stop, step)\<close> for a step other than 0.\<close>

definition range_length :: "int \<Rightarrow> int \<Rightarrow> int \<Rightarrow> nat" where
  "range_length start stop step =
     (if 0 < step \<and> start < stop then nat ((stop - start - 1) div step + 1)
      else if step < 0 \<and> stop < start then nat ((start - stop - 1) div (- step) + 1)
      else 0)"

definition py_range :: "int \<Rightarrow> int \<Rightarrow> int \<Rightarrow> error + int list" where
  "py_range start stop step =
     (if step = 0 then Inl (ValueError ''range() arg 3 must not be zero'')
      else Inr (map (\<lambda>k. start + int k * step) [0..<range_length start stop step]))"

section \<open>WeatherService._process_response\<close>

text \<open>The two values of one index, as lines 128 and 129 compute them.\<close>

definition nan_to_none :: "pyfloat \<Rightarrow> pyfloat option" where
  "nan_to_none x = (if \<not> isnan x then Some x else None)"

definition round_opt :: "env \<Rightarrow> nat \<Rightarrow> pyfloat option \<Rightarrow> pyfloat option" where
  "round_opt e n v = (case v of Some x \<Rightarrow> Some (py_round e x n) | None \<Rightarrow> None)"

definition make_record ::
  "env \<Rightarrow> string \<Rightarrow> pyfloat option \<Rightarrow> pyfloat option \<Rightarrow> pyfloat \<Rightarrow> pyfloat \<Rightarrow> weather_record" where
  "make_record e ts temp humidity lat lon =
     \<lparr> timestamp = Some ts,
       temperature_2m = round_opt e 2 temp,
       relative_humidity_2m = round_opt e 1 humidity,
       latitude = Some lat,
       longitude = Some lon \<rparr>"

text \<open>
  The loop of lines 126 to 145 over \<open>enumerate(hourly_time)\<close>, with the two lists it
  appends to as accumulator. An index outside one of the arrays is skipped; the loop goes
  on to the next time point.
\<close>

fun process_loop ::
  "env \<Rightarrow> pyfloat list \<Rightarrow> pyfloat list \<Rightarrow> pyfloat \<Rightarrow> pyfloat \<Rightarrow> (nat \<times> int) list \<Rightarrow>
   weather_record list \<times> weather_record list \<Rightarrow>
   error + (weather_record list \<times> weather_record list)" where
  "process_loop e temp_data humidity_data lat lon [] acc = Inr acc"
| "process_loop e temp_data humidity_data lat lon ((i, t) # rest) (records, valid) =
     (if i < length temp_data \<and> i < length humidity_data then
        (let temp = nan_to_none (temp_data ! i);
             humidity = nan_to_none (humidity_data ! i)
         in case fromtimestamp_isoformat e t of
              Inl err \<Rightarrow> Inl err
            | Inr ts \<Rightarrow>
                (let record = make_record e ts temp humidity lat lon
                 in process_loop e temp_data humidity_data lat lon rest
                      (records @ [record],
                       if temp \<noteq> None \<and> humidity \<noteq> None then valid @ [record] else valid)))
      else process_loop e temp_data humidity_data lat lon rest (records, valid))"

text \<open>The records of a response: everything up to line 147, with both lists kept.\<close>

definition build_records ::
  "env \<Rightarrow> api_response \<Rightarrow> pyfloat \<Rightarrow> pyfloat \<Rightarrow>
   error + (weather_record list \<times> weather_record list)" where
  "build_records e response lat lon =
     (case Hourly response of
        None \<Rightarrow> Inl (Exception ''No hourly data in response'')
      | Some h \<Rightarrow>
          (case py_range (Time h) (TimeEnd h) (Interval h) of
             Inl err \<Rightarrow> Inl err
           | Inr hourly_time \<Rightarrow>
               if length (Variables h) < 2 then
                 Inl (Exception ''Expected 2 variables (temperature, humidity)'')
               else
                 (let temp_data = Variables h ! 0;
                      humidity_data = Variables h ! 1
                  in if length temp_data = 0 \<or> length humidity_data = 0 then
                       Inl (Exception ''No temperature or humidity data received'')
                     else process_loop e temp_data humidity_data lat lon
                            (enumerate 0 hourly_time) ([], []))))"

definition process_response ::
  "env \<Rightarrow> api_response \<Rightarrow> pyfloat \<Rightarrow> pyfloat \<Rightarrow> error + fetch_result" where
  "process_response e response lat lon =
     (case build_records e response lat lon of
        Inl err \<Rightarrow> Inl err
      | Inr (records, valid) \<Rightarrow>
          Inr \<lparr> status = ''success'',
                meta = \<lparr> md_latitude = Latitude response,
                         md_longitude = Longitude response,
                         md_elevation = Elevation response,
                         md_timezone_offset = UtcOffsetSeconds response,
                         total_records = length records,
                         valid_records = length valid,
                         date_range_start =
                           (if records \<noteq> [] then timestamp (hd records) else None),
                         date_range_end =
                           (if records \<noteq> [] then timestamp (last records) else None) \<rparr>,
                data = valid,
                sample_data = take 5 valid \<rparr>)"

section \<open>WeatherService.fetch_weather_data\<close>

text \<open>
  A coordinate argument is \<open>None\<close> when the object passed is not an \<open>int\<close> or a \<open>float\<close>, and
  the number otherwise (an \<open>int\<close> as the float of the same value). Every HTTP request made
  is appended to a log, so that "the API was not called" can be stated.
\<close>

datatype api_call = DirectGet params | ClientCall params

definition valid_latitude :: "pyfloat \<Rightarrow> bool" where
  "valid_latitude lat = (fle (Fin (- 90)) lat \<and> fle lat (Fin 90))"

definition valid_longitude :: "pyfloat \<Rightarrow> bool" where
  "valid_longitude lon = (fle (Fin (- 180)) lon \<and> fle lon (Fin 180))"

text \<open>The body of the \<open>try\<close> block, lines 55 to 84.\<close>

definition call_api ::
  "env \<Rightarrow> params \<Rightarrow> pyfloat \<Rightarrow> pyfloat \<Rightarrow> api_call list \<Rightarrow>
   (error + fetch_result) \<times> api_call list" where
  "call_api e ps lat lon calls =
     (let calls1 = calls @ [DirectGet ps]
      in case direct_request e ps of
           Inl err \<Rightarrow> (Inl err, calls1)
         | Inr code \<Rightarrow>
             if code \<noteq> 200 then (Inl (Exception ''API request failed with status''), calls1)
             else
               (case direct_inspect e ps of
                  Some err \<Rightarrow> (Inl err, calls1)
                | None \<Rightarrow>
                    (let calls2 = calls1 @ [ClientCall ps]
                     in case weather_api e ps of
                          Inl err \<Rightarrow> (Inl err, calls2)
                        | Inr responses \<Rightarrow>
                            if responses = [] then
                              (Inl (Exception ''No responses received from API''), calls2)
                            else (process_response e (hd responses) lat lon, calls2))))"

definition fetch_weather_data ::
  "env \<Rightarrow> pyfloat option \<Rightarrow> pyfloat option \<Rightarrow> int \<Rightarrow> api_call list \<Rightarrow>
   (error + fetch_result) \<times> api_call list" where
  "fetch_weather_data e lat_arg lon_arg days calls =
     (case (lat_arg, lon_arg) of
        (Some lat, Some lon) \<Rightarrow>
          if \<not> valid_latitude lat then
            (Inl (ValueError ''Invalid latitude (must be between -90 and 90)''), calls)
          else if \<not> valid_longitude lon then
            (Inl (ValueError ''Invalid longitude (must be between -180 and 180)''), calls)
          else
            (case date_params e days of
               None \<Rightarrow> (Inl (OverflowError ''date value out of range''), calls)
             | Some (start_date, end_date) \<Rightarrow>
                 (let ps = \<lparr> p_latitude = lat, p_longitude = lon,
                              p_start_date = start_date, p_end_date = end_date \<rparr>
                  in case call_api e ps lat lon calls of
                       (Inl err, calls') \<Rightarrow>
                         (Inl (Exception (''Weather API error: '' @ error_str err)), calls')
                     | (Inr result, calls') \<Rightarrow> (Inr result, calls')))
      | _ \<Rightarrow> (Inl (ValueError ''Invalid coordinate types''), calls))"

section \<open>WeatherDatabase\<close>

text \<open>
  The table \<open>weather_data\<close> in insertion order, and the counter SQLite keeps for the
  \<open>AUTOINCREMENT\<close> key.
\<close>

record database =
  rows :: "row list"
  sequence :: nat

text \<open>\<open>CREATE TABLE IF NOT EXISTS\<close>: an empty table when the file has none yet.\<close>

definition init_database :: "database option \<Rightarrow> database" where
  "init_database file =
     (case file of None \<Rightarrow> \<lparr> rows = [], sequence = 0 \<rparr> | Some d \<Rightarrow> d)"

text \<open>
  Binding a Python value to a \<open>REAL\<close> column: \<open>None\<close> is \<open>NULL\<close>, and SQLite stores a NaN as
  \<open>NULL\<close> too.
\<close>

definition bind_real :: "pyfloat option \<Rightarrow> pyfloat option" where
  "bind_real v = (case v of None \<Rightarrow> None | Some x \<Rightarrow> if isnan x then None else Some x)"

definition max_row_id :: "row list \<Rightarrow> nat" where
  "max_row_id rs = foldl max 0 (map row_id rs)"

text \<open>
  One \<open>INSERT\<close> (lines 44 to 54). The \<open>NOT NULL\<close> constraints of \<open>timestamp\<close>, \<open>latitude\<close> and
  \<open>longitude\<close> make it fail with \<open>sqlite3.IntegrityError\<close>.
\<close>

definition insert_row :: "env \<Rightarrow> weather_record \<Rightarrow> database \<Rightarrow> error + database" where
  "insert_row e r d =
     (case timestamp r of
        None \<Rightarrow> Inl (IntegrityError ''NOT NULL constraint failed: weather_data.timestamp'')
      | Some ts \<Rightarrow>
          (case bind_real (latitude r) of
             None \<Rightarrow> Inl (IntegrityError ''NOT NULL constraint failed: weather_data.latitude'')
           | Some lat \<Rightarrow>
               (case bind_real (longitude r) of
                  None \<Rightarrow>
                    Inl (IntegrityError ''NOT NULL constraint failed: weather_data.longitude'')
                | Some lon \<Rightarrow>
                    (let new_id = Suc (max (sequence d) (max_row_id (rows d)))
                     in Inr \<lparr> rows = rows d @
                                [\<lparr> row_id = new_id,
                                   row_timestamp = ts,
                                   row_latitude = lat,
                                   row_longitude = lon,
                                   row_temperature_2m = bind_real (temperature_2m r),
                                   row_relative_humidity_2m =
                                     bind_real (relative_humidity_2m r),
                                   row_created_at = current_timestamp e new_id \<rparr>],
                              sequence = new_id \<rparr>))))"

fun insert_loop ::
  "env \<Rightarrow> weather_record list \<Rightarrow> database \<Rightarrow> nat \<Rightarrow> error + (nat \<times> database)" where
  "insert_loop e [] d count_acc = Inr (count_acc, d)"
| "insert_loop e (r # rs) d count_acc =
     (case insert_row e r d of
        Inl err \<Rightarrow> Inl err
      | Inr d' \<Rightarrow> insert_loop e rs d' (count_acc + 1))"

text \<open>
  \<open>store_weather_data\<close>: the inserts are committed together after the loop; an exception
  leaves the transaction uncommitted, so the table is as before.
\<close>

definition store_weather_data ::
  "env \<Rightarrow> weather_record list \<Rightarrow> database \<Rightarrow> (error + nat) \<times> database" where
  "store_weather_data e records d =
     (case insert_loop e records d 0 of
        Inl err \<Rightarrow> (Inl err, d)
      | Inr (count_acc, d') \<Rightarrow> (Inr count_acc, d'))"

text \<open>
  The \<open>WHERE\<close> clause of \<open>get_recent_data\<close>: a comparison of two texts, false when one side
  is \<open>NULL\<close>.
\<close>

definition in_window :: "env \<Rightarrow> int \<Rightarrow> row \<Rightarrow> bool" where
  "in_window e hours r =
     (case (sql_datetime e (row_timestamp r), sql_now_minus_hours e hours) of
        (Some t, Some cutoff) \<Rightarrow> cutoff \<le> t
      | _ \<Rightarrow> False)"

text \<open>
  \<open>get_recent_data\<close>: the rows of the window, latest timestamp first (rows of equal
  timestamp in an order SQLite does not fix; here the later insertion first), at most 1000.
\<close>

definition get_recent_data :: "env \<Rightarrow> int \<Rightarrow> database \<Rightarrow> row list \<times> database" where
  "get_recent_data e hours d =
     (take 1000 (rev (sort_key row_timestamp (filter (in_window e hours) (rows d)))), d)"

record summary =
  summary_total_records :: nat
  unique_locations :: nat
  oldest :: "string option"
  latest :: "string option"
  locations :: "(pyfloat \<times> pyfloat) list"

definition distinct_first :: "'a list \<Rightarrow> 'a list" where
  "distinct_first xs = foldl (\<lambda>acc x. if x \<in> set acc then acc else acc @ [x]) [] xs"

definition get_data_summary :: "database \<Rightarrow> summary \<times> database" where
  "get_data_summary d =
     (let ts = map row_timestamp (rows d);
          locs = take 10 (distinct_first (map (\<lambda>r. (row_latitude r, row_longitude r)) (rows d)))
      in (\<lparr> summary_total_records = length (rows d),
             unique_locations = length locs,
             oldest = (if ts = [] then None else Some (foldl min (hd ts) (tl ts))),
             latest = (if ts = [] then None else Some (foldl max (hd ts) (tl ts))),
             locations = locs \<rparr>, d))"

section \<open>Data frames\<close>

text \<open>
  The pandas operations the two renderers use. A data frame is the list of its rows, each
  with its parsed timestamp. \<open>sort_values\<close> is a sort by that timestamp (the order of rows
  of equal timestamp is pandas' choice). Column reductions skip missing values (\<open>None\<close>,
  NaN) and give NaN when nothing is left. The maximum and the minimum compare floats,
  which is exact; the mean of the values left is float64 arithmetic and is taken from the
  environment.
\<close>

fun to_datetime_all :: "env \<Rightarrow> string list \<Rightarrow> error + int list" where
  "to_datetime_all e [] = Inr []"
| "to_datetime_all e (t # ts) =
     (case to_datetime e t of
        Inl err \<Rightarrow> Inl err
      | Inr n \<Rightarrow>
          (case to_datetime_all e ts of
             Inl err \<Rightarrow> Inl err
           | Inr ns \<Rightarrow> Inr (n # ns)))"

fun dropna :: "pyfloat option list \<Rightarrow> pyfloat list" where
  "dropna [] = []"
| "dropna (None # vs) = dropna vs"
| "dropna (Some x # vs) = (if isnan x then dropna vs else x # dropna vs)"

definition fmax :: "pyfloat \<Rightarrow> pyfloat \<Rightarrow> pyfloat" where
  "fmax a b = (if fle a b then b else a)"

definition fmin :: "pyfloat \<Rightarrow> pyfloat \<Rightarrow> pyfloat" where
  "fmin a b = (if fle b a then b else a)"

definition series_mean :: "env \<Rightarrow> pyfloat option list \<Rightarrow> pyfloat" where
  "series_mean e col =
     (let vs = dropna col
      in if vs = [] then NaN else float_mean e vs)"

definition series_max :: "pyfloat option list \<Rightarrow> pyfloat" where
  "series_max col = (case dropna col of [] \<Rightarrow> NaN | v # vs \<Rightarrow> foldl fmax v vs)"

definition series_min :: "pyfloat option list \<Rightarrow> pyfloat" where
  "series_min col = (case dropna col of [] \<Rightarrow> NaN | v # vs \<Rightarrow> foldl fmin v vs)"

section \<open>ExcelService\<close>

definition generate_excel_report ::
  "env \<Rightarrow> int \<Rightarrow> database \<Rightarrow> (error + string) \<times> database" where
  "generate_excel_report e hours d =
     (case get_recent_data e hours d of
        (recent_data, d') \<Rightarrow>
          if recent_data = [] then (Inl (ValueError ''No weather data available''), d')
          else
            (case to_datetime_all e (map row_timestamp recent_data) of
               Inl err \<Rightarrow> (Inl err, d')
             | Inr ts \<Rightarrow>
                 (let df_export =
                        sort_key fst
                          (zip ts (map (\<lambda>r. (row_temperature_2m r, row_relative_humidity_2m r))
                                     recent_data))
                  in (write_excel e df_export, d'))))"

section \<open>PDFService\<close>

record stat =
  avg :: pyfloat
  maximum :: pyfloat
  minimum :: pyfloat

record stats =
  temperature :: stat
  humidity :: stat

record pdf_metadata =
  location :: string
  date_range :: string
  generated_at :: string
  pdf_total_records :: nat
  hours_covered :: int

text \<open>Lines 40 to 51.\<close>

definition report_stats :: "env \<Rightarrow> (int \<times> row) list \<Rightarrow> stats" where
  "report_stats e df =
     (let temperature_col = map (\<lambda>(t, r). row_temperature_2m r) df;
          humidity_col = map (\<lambda>(t, r). row_relative_humidity_2m r) df
      in \<lparr> temperature = \<lparr> avg = series_mean e temperature_col,
                           maximum = series_max temperature_col,
                           minimum = series_min temperature_col \<rparr>,
           humidity = \<lparr> avg = series_mean e humidity_col,
                        maximum = series_max humidity_col,
                        minimum = series_min humidity_col \<rparr> \<rparr>)"

text \<open>Lines 32 to 38, for a data frame that is not empty.\<close>

definition report_metadata :: "env \<Rightarrow> int \<Rightarrow> (int \<times> row) list \<Rightarrow> pdf_metadata" where
  "report_metadata e hours df =
     (let ts = map fst df
      in \<lparr> location = ''Lat: '' @ format_float e 4 (row_latitude (snd (hd df))) @
                       '', Lon: '' @ format_float e 4 (row_longitude (snd (hd df))),
           date_range = strftime_minute e (foldl min (hd ts) (tl ts)) @ '' to '' @
                          strftime_minute e (foldl max (hd ts) (tl ts)),
           generated_at = now_string e,
           pdf_total_records = length df,
           hours_covered = hours \<rparr>)"

text \<open>
  \<open>_generate_html_content\<close>: the template with its holes filled. The statistics table has
  one line per metric, with the temperature cell to two decimals and the humidity cell to
  one.
\<close>

definition generate_html_content :: "env \<Rightarrow> pdf_metadata \<Rightarrow> stats \<Rightarrow> string \<Rightarrow> report_html" where
  "generate_html_content e md st chart_base64 =
     \<lparr> html_location = location md,
       html_date_range = date_range md,
       html_hours_covered = hours_covered md,
       html_generated_at = generated_at md,
       html_total_records = pdf_total_records md,
       html_chart =
         (if chart_base64 \<noteq> [] then ''<img src=data:image/png;base64,'' @ chart_base64 @ ''>''
          else ''<p>Chart could not be generated</p>''),
       html_statistics =
         [(''Average'', format_float e 2 (avg (temperature st)),
                       format_float e 1 (avg (humidity st))),
          (''Maximum'', format_float e 2 (maximum (temperature st)),
                       format_float e 1 (maximum (humidity st))),
          (''Minimum'', format_float e 2 (minimum (temperature st)),
                       format_float e 1 (minimum (humidity st)))] \<rparr>"

text \<open>The page that \<open>generate_pdf_report\<close> hands to WeasyPrint, from the rows retrieved.\<close>

definition report_page :: "env \<Rightarrow> int \<Rightarrow> (int \<times> row) list \<Rightarrow> report_html" where
  "report_page e hours df =
     generate_html_content e (report_metadata e hours df) (report_stats e df)
       (create_weather_chart e df)"

definition generate_pdf_report ::
  "env \<Rightarrow> int \<Rightarrow> database \<Rightarrow> (error + string) \<times> database" where
  "generate_pdf_report e hours d =
     (case get_recent_data e hours d of
        (recent_data, d') \<Rightarrow>
          if recent_data = [] then (Inl (ValueError ''No weather data available''), d')
          else
            (case to_datetime_all e (map row_timestamp recent_data) of
               Inl err \<Rightarrow> (Inl err, d')
             | Inr ts \<Rightarrow>
                 (let df = sort_key fst (zip ts recent_data)
                  in (write_pdf e (report_page e hours df), d'))))"

section \<open>The request handlers\<close>

text \<open>
  The state the handlers act on: the database and the log of API requests. A response is
  its status code and the part of its body the properties below speak about.
\<close>

record world =
  db :: database
  api_calls :: "api_call list"

datatype body =
    ErrorBody string string
  | ReportBody fetch_result nat
  | FileBody string
  | SummaryBody summary
  | RecentBody int nat "row list"
  | InfoBody string

record http_response =
  code :: nat
  body :: body

text \<open>
  \<open>/weather-report\<close>. The arguments are what \<open>request.args.get(..., type=float)\<close> gives:
  \<open>None\<close> for a parameter that is absent or is no float. The second component of
  \<open>ReportBody\<close> is the field \<open>database_stored\<close>.
\<close>

definition get_weather_report ::
  "env \<Rightarrow> pyfloat option \<Rightarrow> pyfloat option \<Rightarrow> world \<Rightarrow> http_response \<times> world" where
  "get_weather_report e lat_arg lon_arg w =
     (case (lat_arg, lon_arg) of
        (Some lat, Some lon) \<Rightarrow>
          if \<not> valid_latitude lat then
            (\<lparr> code = 400, body = ErrorBody ''Invalid latitude (-90 to 90)'' [] \<rparr>, w)
          else if \<not> valid_longitude lon then
            (\<lparr> code = 400, body = ErrorBody ''Invalid longitude (-180 to 180)'' [] \<rparr>, w)
          else
            (case fetch_weather_data e (Some lat) (Some lon) 2 (api_calls w) of
               (Inl err, calls') \<Rightarrow>
                 (\<lparr> code = 500,
                    body = ErrorBody ''Failed to fetch weather data'' (error_str err) \<rparr>,
                  w\<lparr> api_calls := calls' \<rparr>)
             | (Inr result, calls') \<Rightarrow>
                 if data result \<noteq> [] then
                   (case store_weather_data e (data result) (db w) of
                      (Inl err, d') \<Rightarrow>
                        (\<lparr> code = 500,
                           body = ErrorBody ''Failed to fetch weather data'' (error_str err) \<rparr>,
                         w\<lparr> db := d', api_calls := calls' \<rparr>)
                    | (Inr stored, d') \<Rightarrow>
                        (\<lparr> code = 200, body = ReportBody result stored \<rparr>,
                         w\<lparr> db := d', api_calls := calls' \<rparr>))
                 else (\<lparr> code = 200, body = ReportBody result 0 \<rparr>, w\<lparr> api_calls := calls' \<rparr>))
      | _ \<Rightarrow> (\<lparr> code = 400, body = ErrorBody ''Missing parameters'' [] \<rparr>, w))"

text \<open>
  The \<open>hours\<close> parameter of the three other routes: \<open>None\<close> when it is absent or no integer,
  and then 48.
\<close>

definition hours_param :: "int option \<Rightarrow> int" where
  "hours_param arg = (case arg of None \<Rightarrow> 48 | Some h \<Rightarrow> h)"

text \<open>The two \<open>except\<close> clauses of the export routes.\<close>

definition export_error :: "string \<Rightarrow> error \<Rightarrow> http_response" where
  "export_error what err =
     (case err of
        ValueError m \<Rightarrow> \<lparr> code = 404, body = ErrorBody ''No data available'' m \<rparr>
      | _ \<Rightarrow> \<lparr> code = 500, body = ErrorBody what (error_str err) \<rparr>)"

definition export_excel :: "env \<Rightarrow> int option \<Rightarrow> world \<Rightarrow> http_response \<times> world" where
  "export_excel e arg w =
     (let hours = hours_param arg
      in if hours \<le> 0 \<or> hours > 168 then
           (\<lparr> code = 400, body = ErrorBody ''Invalid hours parameter (1-168)'' [] \<rparr>, w)
         else
           (case generate_excel_report e hours (db w) of
              (Inl err, d') \<Rightarrow>
                (export_error ''Failed to generate Excel report'' err, w\<lparr> db := d' \<rparr>)
            | (Inr excel_file, d') \<Rightarrow>
                (\<lparr> code = 200, body = FileBody excel_file \<rparr>, w\<lparr> db := d' \<rparr>)))"

definition export_pdf :: "env \<Rightarrow> int option \<Rightarrow> world \<Rightarrow> http_response \<times> world" where
  "export_pdf e arg w =
     (let hours = hours_param arg
      in if hours \<le> 0 \<or> hours > 168 then
           (\<lparr> code = 400, body = ErrorBody ''Invalid hours parameter (1-168)'' [] \<rparr>, w)
         else
           (case generate_pdf_report e hours (db w) of
              (Inl err, d') \<Rightarrow>
                (export_error ''Failed to generate PDF report'' err, w\<lparr> db := d' \<rparr>)
            | (Inr pdf_file, d') \<Rightarrow>
                (\<lparr> code = 200, body = FileBody pdf_file \<rparr>, w\<lparr> db := d' \<rparr>)))"

definition data_summary_route :: "world \<Rightarrow> http_response \<times> world" where
  "data_summary_route w =
     (case get_data_summary (db w) of
        (s, d') \<Rightarrow> (\<lparr> code = 200, body = SummaryBody s \<rparr>, w\<lparr> db := d' \<rparr>))"

definition recent_data_route :: "env \<Rightarrow> int option \<Rightarrow> world \<Rightarrow> http_response \<times> world" where
  "recent_data_route e arg w =
     (let hours = hours_param arg
      in if hours \<le> 0 \<or> hours > 168 then
           (\<lparr> code = 400, body = ErrorBody ''Invalid hours parameter (1-168)'' [] \<rparr>, w)
         else
           (case get_recent_data e hours (db w) of
              (rs, d') \<Rightarrow>
                (\<lparr> code = 200, body = RecentBody hours (length rs) (take 10 rs) \<rparr>,
                 w\<lparr> db := d' \<rparr>)))"

text \<open>Every route of the application, and the request it serves.\<close>

datatype request =
    Home
  | WeatherReport "pyfloat option" "pyfloat option"
  | ExportExcel "int option"
  | ExportPdf "int option"
  | DataSummary
  | DataRecent "int option"
  | Health

fun handle :: "env \<Rightarrow> request \<Rightarrow> world \<Rightarrow> http_response \<times> world" where
  "handle e Home w = (\<lparr> code = 200, body = InfoBody ''Weather Service API'' \<rparr>, w)"
| "handle e (WeatherReport lat lon) w = get_weather_report e lat lon w"
| "handle e (ExportExcel arg) w = export_excel e arg w"
| "handle e (ExportPdf arg) w = export_pdf e arg w"
| "handle e DataSummary w = data_summary_route w"
| "handle e (DataRecent arg) w = recent_data_route e arg w"
| "handle e Health w = (\<lparr> code = 200, body = InfoBody ''healthy'' \<rparr>, w)"

fun handle_all :: "env \<Rightarrow> request list \<Rightarrow> world \<Rightarrow> world" where
  "handle_all e [] w = w"
| "handle_all e (r # rs) w = handle_all e rs (snd (handle e r w))"

section \<open>Notions used in the statements\<close>

text \<open>
  The ISO string of a time point that \<open>fromtimestamp\<close> accepts, the test of line 127 on one
  element of \<open>enumerate(hourly_time)\<close>, the record the loop builds for it, and the test of
  line 141 read off the record.
\<close>

definition iso_of :: "env \<Rightarrow> int \<Rightarrow> string" where
  "iso_of e t = (case fromtimestamp_isoformat e t of Inr s \<Rightarrow> s | Inl _ \<Rightarrow> [])"

definition in_bounds :: "pyfloat list \<Rightarrow> pyfloat list \<Rightarrow> nat \<times> int \<Rightarrow> bool" where
  "in_bounds temp_data humidity_data = (\<lambda>(i, t). i < length temp_data \<and> i < length humidity_data)"

definition record_of ::
  "env \<Rightarrow> pyfloat list \<Rightarrow> pyfloat list \<Rightarrow> pyfloat \<Rightarrow> pyfloat \<Rightarrow> nat \<times> int \<Rightarrow> weather_record" where
  "record_of e temp_data humidity_data lat lon =
     (\<lambda>(i, t). make_record e (iso_of e t) (nan_to_none (temp_data ! i))
                 (nan_to_none (humidity_data ! i)) lat lon)"

definition is_valid :: "weather_record \<Rightarrow> bool" where
  "is_valid r = (temperature_2m r \<noteq> None \<and> relative_humidity_2m r \<noteq> None)"

text \<open>The value of a finite float.\<close>

fun unfin :: "pyfloat \<Rightarrow> real" where
  "unfin (Fin x) = x"
| "unfin _ = 0"

text \<open>
  The form \<open>YYYY-MM-DDTHH:MM:SS\<close> of ISO 8601, which is what \<open>isoformat()\<close> gives for a
  datetime built from a whole number of seconds.
\<close>

definition is_digit :: "char \<Rightarrow> bool" where
  "is_digit c = (c \<in> set ''0123456789'')"

definition iso8601 :: "string \<Rightarrow> bool" where
  "iso8601 s =
     (length s = 19 \<and>
      list_all is_digit (take 4 s) \<and> s ! 4 = CHR ''-'' \<and>
      list_all is_digit (take 2 (drop 5 s)) \<and> s ! 7 = CHR ''-'' \<and>
      list_all is_digit (take 2 (drop 8 s)) \<and> s ! 10 = CHR ''T'' \<and>
      list_all is_digit (take 2 (drop 11 s)) \<and> s ! 13 = CHR '':'' \<and>
      list_all is_digit (take 2 (drop 14 s)) \<and> s ! 16 = CHR '':'' \<and>
      list_all is_digit (take 2 (drop 17 s)))"

text \<open>
  A record the \<open>INSERT\<close> accepts: its timestamp, latitude and longitude bind to a value
  that is not \<open>NULL\<close>. \<open>stored_as r x\<close>: the row \<open>x\<close> holds the five values of the record \<open>r\<close>.
\<close>

definition storable :: "weather_record \<Rightarrow> bool" where
  "storable r =
     (timestamp r \<noteq> None \<and> bind_real (latitude r) \<noteq> None \<and> bind_real (longitude r) \<noteq> None)"

definition stored_as :: "weather_record \<Rightarrow> row \<Rightarrow> bool" where
  "stored_as r x =
     (timestamp r = Some (row_timestamp x) \<and>
      bind_real (latitude r) = Some (row_latitude x) \<and>
      bind_real (longitude r) = Some (row_longitude x) \<and>
      row_temperature_2m x = bind_real (temperature_2m r) \<and>
      row_relative_humidity_2m x = bind_real (relative_humidity_2m r))"

section \<open>A small instance\<close>

text \<open>
  A response of three hourly time points with a temperature array of length three (one
  NaN) and a humidity array of length two, and an environment to run the service on. Its
  rounding is decimal rounding of the exact value.
\<close>

definition example_round :: "pyfloat \<Rightarrow> nat \<Rightarrow> pyfloat" where
  "example_round x n = (case x of Fin r \<Rightarrow> Fin (of_int (round (r * 10 ^ n)) / 10 ^ n) | _ \<Rightarrow> x)"

definition example_iso :: "int \<Rightarrow> error + string" where
  "example_iso t =
     (if t = 0 then Inr ''1970-01-01T00:00:00''
      else if t = 3600 then Inr ''1970-01-01T01:00:00''
      else if t = 7200 then Inr ''1970-01-01T02:00:00''
      else Inl (OverflowError ''timestamp out of range for platform time_t''))"

definition example_response :: api_response where
  "example_response =
     \<lparr> Latitude = Fin 47.375, Longitude = Fin 8, Elevation = Fin 400, UtcOffsetSeconds = 0,
       Hourly = Some \<lparr> Time = 0, TimeEnd = 10800, Interval = 3600,
                       Variables = [[Fin 21.347, NaN, Fin 19.2], [Fin 55.04, Fin 60]] \<rparr> \<rparr>"

definition example_response_nan :: api_response where
  "example_response_nan =
     \<lparr> Latitude = Fin 47.375, Longitude = Fin 8, Elevation = Fin 400, UtcOffsetSeconds = 0,
       Hourly = Some \<lparr> Time = 0, TimeEnd = 3600, Interval = 3600,
                       Variables = [[NaN], [Fin 50]] \<rparr> \<rparr>"

definition example_to_datetime :: "string \<Rightarrow> error + int" where
  "example_to_datetime s =
     Inr (if s = ''1970-01-01T01:00:00'' then 3600000000000
          else if s = ''1970-01-01T02:00:00'' then 7200000000000
          else 0)"

text \<open>
  The mean of finite values in exact arithmetic, which is the float64 mean on the values
  of the instance below.
\<close>

definition example_mean :: "pyfloat list \<Rightarrow> pyfloat" where
  "example_mean vs = Fin (sum_list (map unfin vs) / real (length vs))"

definition example_format :: "nat \<Rightarrow> pyfloat \<Rightarrow> string" where
  "example_format n x =
     (case x of
        Fin r \<Rightarrow>
          (if r = 20 then ''20'' else if r = 21 then ''21'' else if r = 22 then ''22''
           else if r = 50 then ''50'' else if r = 55 then ''55'' else if r = 60 then ''60''
           else ''?'') @
          (if n = 1 then ''.0'' else if n = 2 then ''.00'' else ''.0000'')
      | _ \<Rightarrow> ''nan'')"

definition example_env :: env where
  "example_env =
     \<lparr> fromtimestamp_isoformat = example_iso,
       py_round = example_round,
       date_params = (\<lambda>days. Some (''2024-01-01'', ''2024-01-03'')),
       direct_request = (\<lambda>ps. Inr 200),
       direct_inspect = (\<lambda>ps. None),
       weather_api = (\<lambda>ps. Inr [example_response]),
       current_timestamp = (\<lambda>n. ''2024-01-03 12:00:00''),
       sql_datetime = (\<lambda>s. Some (map (\<lambda>c. if c = CHR ''T'' then CHR '' '' else c) s)),
       sql_now_minus_hours = (\<lambda>h. Some ''1969-12-31 00:00:00''),
       to_datetime = example_to_datetime,
       float_mean = example_mean,
       format_float = example_format,
       strftime_minute = (\<lambda>t. ''1970-01-01 00:00''),
       now_string = ''2024-01-03 12:00:00'',
       create_weather_chart = (\<lambda>df. []),
       write_pdf = (\<lambda>html. Inr (''%PDF'' @ concat (map (\<lambda>(m, t, h). '' '' @ m @ '' '' @ t @ '' '' @ h)
                                              (html_statistics html)))),
       write_excel = (\<lambda>df. Inr ''PK'') \<rparr>"


definition example_result :: fetch_result where
  "example_result =
     \<lparr> status = ''success'',
       meta = \<lparr> md_latitude = Fin 47.375, md_longitude = Fin 8, md_elevation = Fin 400,
                md_timezone_offset = 0, total_records = 2, valid_records = 1,
                date_range_start = Some ''1970-01-01T00:00:00'',
                date_range_end = Some ''1970-01-01T01:00:00'' \<rparr>,
       data = [\<lparr> timestamp = Some ''1970-01-01T00:00:00'', temperature_2m = Some (Fin 21.35),
                 relative_humidity_2m = Some (Fin 55), latitude = Some (Fin 47.37),
                 longitude = Some (Fin 8) \<rparr>],
       sample_data = [\<lparr> timestamp = Some ''1970-01-01T00:00:00'', temperature_2m = Some (Fin 21.35),
                 relative_humidity_2m = Some (Fin 55), latitude = Some (Fin 47.37),
                 longitude = Some (Fin 8) \<rparr>] \<rparr>"

definition example_result_nan :: fetch_result where
  "example_result_nan =
     \<lparr> status = ''success'',
       meta = \<lparr> md_latitude = Fin 47.375, md_longitude = Fin 8, md_elevation = Fin 400,
                md_timezone_offset = 0, total_records = 1, valid_records = 0,
                date_range_start = Some ''1970-01-01T00:00:00'',
                date_range_end = Some ''1970-01-01T00:00:00'' \<rparr>,
       data = [],
       sample_data = [] \<rparr>"

definition example_params :: params where
  "example_params =
     \<lparr> p_latitude = Fin 47.37, p_longitude = Fin 8,
       p_start_date = ''2024-01-01'', p_end_date = ''2024-01-03'' \<rparr>"

text \<open>
  Two records as the service builds them, a record without latitude, and a database that
  already holds one row.
\<close>

definition example_record :: weather_record where
  "example_record =
     \<lparr> timestamp = Some ''1970-01-01T00:00:00'', temperature_2m = Some (Fin 21.35),
       relative_humidity_2m = Some (Fin 55), latitude = Some (Fin 47.37),
       longitude = Some (Fin 8) \<rparr>"

definition example_record_no_temperature :: weather_record where
  "example_record_no_temperature =
     \<lparr> timestamp = Some ''1970-01-01T01:00:00'', temperature_2m = None,
       relative_humidity_2m = Some (Fin 60), latitude = Some (Fin 47.37),
       longitude = Some (Fin 8) \<rparr>"

definition example_record_no_latitude :: weather_record where
  "example_record_no_latitude =
     \<lparr> timestamp = Some ''1970-01-01T00:00:00'', temperature_2m = Some (Fin 21.35),
       relative_humidity_2m = Some (Fin 55), latitude = None, longitude = Some (Fin 8) \<rparr>"

definition example_record_nan_latitude :: weather_record where
  "example_record_nan_latitude =
     \<lparr> timestamp = Some ''1970-01-01T00:00:00'', temperature_2m = Some (Fin 21.35),
       relative_humidity_2m = Some (Fin 55), latitude = Some NaN, longitude = Some (Fin 8) \<rparr>"

definition example_record_other_text :: weather_record where
  "example_record_other_text =
     \<lparr> timestamp = Some ''yesterday'', temperature_2m = Some (Fin 21.35),
       relative_humidity_2m = Some (Fin 55), latitude = Some (Fin 47.37),
       longitude = Some (Fin 8) \<rparr>"

definition example_row :: row where
  "example_row =
     \<lparr> row_id = 1, row_timestamp = ''1970-01-01T00:00:00'', row_latitude = Fin 47.37,
       row_longitude = Fin 8, row_temperature_2m = Some (Fin 20),
       row_relative_humidity_2m = Some (Fin 50), row_created_at = ''2024-01-03 11:00:00'' \<rparr>"

definition example_db :: database where
  "example_db = \<lparr> rows = [example_row], sequence = 1 \<rparr>"

text \<open>A table of three rows, the latest without temperature.\<close>

definition example_table :: database where
  "example_table =
     \<lparr> rows =
         [\<lparr> row_id = 1, row_timestamp = ''1970-01-01T00:00:00'', row_latitude = Fin 47.37,
             row_longitude = Fin 8, row_temperature_2m = Some (Fin 20),
             row_relative_humidity_2m = Some (Fin 50),
             row_created_at = ''2024-01-03 11:00:00'' \<rparr>,
          \<lparr> row_id = 2, row_timestamp = ''1970-01-01T01:00:00'', row_latitude = Fin 47.37,
             row_longitude = Fin 8, row_temperature_2m = Some (Fin 22),
             row_relative_humidity_2m = Some (Fin 60),
             row_created_at = ''2024-01-03 11:00:00'' \<rparr>,
          \<lparr> row_id = 3, row_timestamp = ''1970-01-01T02:00:00'', row_latitude = Fin 47.37,
             row_longitude = Fin 8, row_temperature_2m = None,
             row_relative_humidity_2m = Some (Fin 55),
             row_created_at = ''2024-01-03 11:00:00'' \<rparr>],
       sequence = 3 \<rparr>"

definition empty_db :: database where
  "empty_db = \<lparr> rows = [], sequence = 0 \<rparr>"

definition example_world :: world where
  "example_world = \<lparr> db = example_db, api_calls = [] \<rparr>"

definition empty_world :: world where
  "empty_world = \<lparr> db = empty_db, api_calls = [] \<rparr>"

section \<open>Normalisation of a response\<close>

lemma round_opt_None [simp]: "round_opt e n v = None \<longleftrightarrow> v = None"
  by (simp add: round_opt_def split: option.splits)

lemma is_valid_make_record [simp]:
  "is_valid (make_record e ts temp hum lat lon) \<longleftrightarrow> temp \<noteq> None \<and> hum \<noteq> None"
  by (simp add: is_valid_def make_record_def)

lemma process_loop_Inr:
  "process_loop e tds hs lat lon items (rs, vs) = Inr (rs', vs') \<Longrightarrow>
     list_all (\<lambda>(i, t). fromtimestamp_isoformat e t = Inr (iso_of e t)) (filter (in_bounds tds hs) items) \<and>
     rs' = rs @ map (record_of e tds hs lat lon) (filter (in_bounds tds hs) items) \<and>
     vs' = vs @ filter is_valid (map (record_of e tds hs lat lon) (filter (in_bounds tds hs) items))"
proof (induction items arbitrary: rs vs)
  case Nil
  then show ?case by simp
next
  case (Cons it items)
  obtain i t where it: "it = (i, t)" by (cases it)
  show ?case
  proof (cases "i < length tds \<and> i < length hs")
    case False
    with Cons.prems it have "process_loop e tds hs lat lon items (rs, vs) = Inr (rs', vs')"
      by auto
    from Cons.IH[OF this] False it show ?thesis by (simp add: in_bounds_def)
  next
    case True
    with Cons.prems it obtain ts where ts: "fromtimestamp_isoformat e t = Inr ts"
      by (auto simp: Let_def split: sum.splits)
    then have iso: "iso_of e t = ts" by (simp add: iso_of_def)
    let ?r = "make_record e ts (nan_to_none (tds ! i)) (nan_to_none (hs ! i)) lat lon"
    from Cons.prems it True ts
    have "process_loop e tds hs lat lon items
            (rs @ [?r], if is_valid ?r then vs @ [?r] else vs) = Inr (rs', vs')"
      by (simp add: Let_def)
    from Cons.IH[OF this] True it ts iso show ?thesis
      by (simp add: in_bounds_def record_of_def)
  qed
qed

lemma process_loop_returns:
  "list_all (\<lambda>(i, t). fromtimestamp_isoformat e t = Inr (iso_of e t)) (filter (in_bounds tds hs) items) \<Longrightarrow>
   \<exists>res. process_loop e tds hs lat lon items acc = Inr res"
proof (induction items arbitrary: acc)
  case Nil
  then show ?case by simp
next
  case (Cons it items)
  obtain i t where it: "it = (i, t)" by (cases it)
  obtain rs vs where acc: "acc = (rs, vs)" by (cases acc)
  from Cons show ?case unfolding it acc
    by (auto simp: in_bounds_def Let_def)
qed

lemma filter_in_bounds_enumerate:
  "filter (in_bounds tds hs) (enumerate n xs) =
   enumerate n (take (min (length tds) (length hs) - n) xs)"
proof (induction xs arbitrary: n)
  case Nil
  then show ?case by simp
next
  case (Cons x xs)
  show ?case
  proof (cases "n < min (length tds) (length hs)")
    case True
    then have "min (length tds) (length hs) - n = Suc (min (length tds) (length hs) - Suc n)"
      by arith
    with True Cons.IH[of "Suc n"] show ?thesis
      by (simp add: in_bounds_def)
  next
    case False
    then have "\<forall>p \<in> set (enumerate (Suc n) xs). \<not> in_bounds tds hs p"
      by (auto simp: in_bounds_def in_set_enumerate_eq)
    then have "filter (in_bounds tds hs) (enumerate (Suc n) xs) = []"
      by (simp add: filter_empty_conv)
    moreover from False have "min (length tds) (length hs) - n = 0" by arith
    moreover from False have "\<not> in_bounds tds hs (n, x)" by (simp add: in_bounds_def)
    ultimately show ?thesis by simp
  qed
qed

lemma example_round_value: "example_round (Fin 21.347) 2 = Fin 21.35"
  by (simp add: example_round_def round_def)

lemma example_py_range: "py_range 0 10800 3600 = Inr [0, 3600, 7200]"
  by (simp add: py_range_def range_length_def upt_rec)


lemma example_build_records: "build_records example_env example_response (Fin 47.37) (Fin 8) =
  Inr ([\<lparr> timestamp = Some ''1970-01-01T00:00:00'', temperature_2m = Some (Fin 21.35),
          relative_humidity_2m = Some (Fin 55), latitude = Some (Fin 47.37), longitude = Some (Fin 8) \<rparr>,
        \<lparr> timestamp = Some ''1970-01-01T01:00:00'', temperature_2m = None,
          relative_humidity_2m = Some (Fin 60), latitude = Some (Fin 47.37), longitude = Some (Fin 8) \<rparr>],
       [\<lparr> timestamp = Some ''1970-01-01T00:00:00'', temperature_2m = Some (Fin 21.35),
          relative_humidity_2m = Some (Fin 55), latitude = Some (Fin 47.37), longitude = Some (Fin 8) \<rparr>])"
  by (simp add: build_records_def example_response_def example_env_def example_py_range enumerate_eq_zip upt_rec
      nan_to_none_def make_record_def round_opt_def example_round_def round_def example_iso_def Let_def)


lemma build_records_Inr:
  assumes "build_records e response lat lon = Inr (records, valid)"
  obtains h times where
    "Hourly response = Some h"
    "py_range (Time h) (TimeEnd h) (Interval h) = Inr times"
    "2 \<le> length (Variables h)"
    "records = map (record_of e (Variables h ! 0) (Variables h ! 1) lat lon)
                 (enumerate 0 (take (min (length (Variables h ! 0)) (length (Variables h ! 1))) times))"
    "valid = filter is_valid records"
    "list_all (\<lambda>(i, t). fromtimestamp_isoformat e t = Inr (iso_of e t))
       (enumerate 0 (take (min (length (Variables h ! 0)) (length (Variables h ! 1))) times))"
proof -
  from assms obtain h where h: "Hourly response = Some h"
    by (auto simp: build_records_def split: option.splits)
  from assms h obtain times where t: "py_range (Time h) (TimeEnd h) (Interval h) = Inr times"
    by (auto simp: build_records_def split: sum.splits)
  from assms h t have len: "2 \<le> length (Variables h)"
    by (auto simp: build_records_def split: if_splits)
  from assms h t len
  have "process_loop e (Variables h ! 0) (Variables h ! 1) lat lon (enumerate 0 times) ([], [])
          = Inr (records, valid)"
    by (auto simp: build_records_def Let_def split: if_splits)
  from process_loop_Inr[OF this] h t len that show thesis
    by (simp add: filter_in_bounds_enumerate)
qed

lemma record_of_nth:
  assumes "i < length xs"
  shows "record_of e tds hs lat lon (enumerate 0 xs ! i) =
         make_record e (iso_of e (xs ! i)) (nan_to_none (tds ! i)) (nan_to_none (hs ! i)) lat lon"
  using assms by (simp add: record_of_def nth_enumerate_eq)

lemma process_response_returns:
  assumes "Hourly response = Some h"
    and "Interval h \<noteq> 0"
    and "2 \<le> length (Variables h)"
    and "Variables h ! 0 \<noteq> []" and "Variables h ! 1 \<noteq> []"
    and "\<forall>t. \<exists>ts. fromtimestamp_isoformat e t = Inr ts"
  shows "\<exists>result. process_response e response lat lon = Inr result"
proof -
  from assms(6) have "fromtimestamp_isoformat e t = Inr (iso_of e t)" for t
    by (metis iso_of_def sum.simps(6))
  then have "list_all (\<lambda>(i, t). fromtimestamp_isoformat e t = Inr (iso_of e t)) xs" for xs
    by (simp add: list_all_iff split_beta)
  from process_loop_returns[OF this]
  obtain res where "process_loop e (Variables h ! 0) (Variables h ! 1) lat lon
        (enumerate 0 (map (\<lambda>k. Time h + int k * Interval h)
           [0..<range_length (Time h) (TimeEnd h) (Interval h)])) ([], []) = Inr res"
    by blast
  with assms(1-5) show ?thesis
    by (cases res) (simp add: process_response_def build_records_def py_range_def Let_def)
qed

lemma example_process_response:
  "process_response example_env example_response (Fin 47.37) (Fin 8) = Inr example_result"
  unfolding process_response_def example_build_records
  by (simp add: example_result_def example_response_def)

text \<open>
  C1. A response that \<open>_process_response\<close> accepts has an hourly block and a time range;
  the loop produces one record for each index within both the temperature and the
  humidity array, so the number of records (which is \<open>total_records\<close>) is the minimum of
  the number of time points and the two array lengths, and the timestamp of record \<open>i\<close> is
  the ISO form of time point \<open>i\<close> of the range.
\<close>

theorem process_response_aligns:
  assumes "process_response e response lat lon = Inr result"
  shows "\<exists>h times records.
           Hourly response = Some h \<and>
           py_range (Time h) (TimeEnd h) (Interval h) = Inr times \<and>
           build_records e response lat lon = Inr (records, data result) \<and>
           total_records (meta result) = length records \<and>
           length records =
             min (length times) (min (length (Variables h ! 0)) (length (Variables h ! 1))) \<and>
           (\<forall>i < length records. \<exists>ts.
              fromtimestamp_isoformat e (times ! i) = Inr ts \<and>
              timestamp (records ! i) = Some ts)"
proof -
  from assms obtain records valid where
    b: "build_records e response lat lon = Inr (records, valid)"
    by (auto simp: process_response_def split: sum.splits)
  with assms have res: "data result = valid" "total_records (meta result) = length records"
    by (auto simp: process_response_def)
  from b obtain h times where
    h: "Hourly response = Some h" and
    t: "py_range (Time h) (TimeEnd h) (Interval h) = Inr times" and
    r: "records = map (record_of e (Variables h ! 0) (Variables h ! 1) lat lon)
                 (enumerate 0 (take (min (length (Variables h ! 0)) (length (Variables h ! 1))) times))" and
    ok: "list_all (\<lambda>(i, t). fromtimestamp_isoformat e t = Inr (iso_of e t))
       (enumerate 0 (take (min (length (Variables h ! 0)) (length (Variables h ! 1))) times))"
    by (rule build_records_Inr)
  let ?m = "min (length (Variables h ! 0)) (length (Variables h ! 1))"
  have len: "length records = min (length times) ?m"
    by (simp add: r min.commute)
  have "\<exists>ts. fromtimestamp_isoformat e (times ! i) = Inr ts \<and> timestamp (records ! i) = Some ts"
    if i: "i < length records" for i
  proof -
    from i len have i': "i < length (take ?m times)" by simp
    then have "(i, take ?m times ! i) \<in> set (enumerate 0 (take ?m times))"
      by (simp add: in_set_enumerate_eq)
    with ok have "fromtimestamp_isoformat e (take ?m times ! i) = Inr (iso_of e (take ?m times ! i))"
      by (auto simp: list_all_iff)
    moreover from i' have "take ?m times ! i = times ! i" by simp
    moreover from i' have "timestamp (records ! i) = Some (iso_of e (take ?m times ! i))"
      unfolding r by (simp add: record_of_nth make_record_def)
    ultimately show ?thesis by simp
  qed
  with h t b res len show ?thesis by blast
qed

theorem process_response_aligns_witness:
  "process_response example_env example_response (Fin 47.37) (Fin 8) = Inr example_result \<and>
   (\<exists>records. build_records example_env example_response (Fin 47.37) (Fin 8)
                 = Inr (records, data example_result) \<and>
      total_records (meta example_result) = length records \<and>
      length records = min 3 (min 3 2) \<and>
      (\<forall>i < length records. \<exists>ts.
          fromtimestamp_isoformat example_env ([0, 3600, 7200] ! i) = Inr ts \<and>
          timestamp (records ! i) = Some ts))"
  using process_response_aligns[OF example_process_response] example_process_response
  by (auto simp: example_response_def example_py_range)

lemma build_records_nth:
  assumes "build_records e response lat lon = Inr (records, valid)"
    and "Hourly response = Some h"
    and "i < length records"
  shows "i < length (Variables h ! 0) \<and> i < length (Variables h ! 1) \<and>
         temperature_2m (records ! i) = round_opt e 2 (nan_to_none (Variables h ! 0 ! i)) \<and>
         relative_humidity_2m (records ! i) = round_opt e 1 (nan_to_none (Variables h ! 1 ! i))"
proof -
  from assms(1) obtain h' times where
    h': "Hourly response = Some h'" and
    r: "records = map (record_of e (Variables h' ! 0) (Variables h' ! 1) lat lon)
                 (enumerate 0 (take (min (length (Variables h' ! 0)) (length (Variables h' ! 1))) times))"
    by (rule build_records_Inr)
  from h' assms(2) have [simp]: "h' = h" by simp
  let ?m = "min (length (Variables h ! 0)) (length (Variables h ! 1))"
  from assms(3) have i: "i < length (take ?m times)" by (simp add: r)
  then have "records ! i = make_record e (iso_of e (take ?m times ! i))
       (nan_to_none (Variables h ! 0 ! i)) (nan_to_none (Variables h ! 1 ! i)) lat lon"
    unfolding r by (simp add: record_of_nth)
  with i show ?thesis by (simp add: make_record_def)
qed

text \<open>
  C2. In every record of an accepted response the temperature is \<open>None\<close> exactly when the
  temperature value of that index is NaN, and likewise the humidity; a value that is not
  NaN stays a float. The list \<open>data\<close> of the result consists of exactly the records with
  both values present, in order, and \<open>total_records\<close> and \<open>valid_records\<close> are the lengths
  of the full list and of \<open>data\<close>.
\<close>

theorem process_response_nan_and_valid:
  assumes "process_response e response lat lon = Inr result"
  shows "\<exists>h records.
           Hourly response = Some h \<and>
           build_records e response lat lon = Inr (records, data result) \<and>
           (\<forall>i < length records.
              (temperature_2m (records ! i) = None \<longleftrightarrow> isnan (Variables h ! 0 ! i)) \<and>
              (relative_humidity_2m (records ! i) = None \<longleftrightarrow> isnan (Variables h ! 1 ! i))) \<and>
           data result =
             filter (\<lambda>r. temperature_2m r \<noteq> None \<and> relative_humidity_2m r \<noteq> None) records \<and>
           total_records (meta result) = length records \<and>
           valid_records (meta result) = length (data result)"
proof -
  from assms obtain records valid where
    b: "build_records e response lat lon = Inr (records, valid)"
    by (auto simp: process_response_def split: sum.splits)
  with assms have res: "data result = valid" "total_records (meta result) = length records"
    "valid_records (meta result) = length valid"
    by (auto simp: process_response_def)
  from b obtain h where h: "Hourly response = Some h" and v: "valid = filter is_valid records"
    by (rule build_records_Inr)
  have "(temperature_2m (records ! i) = None \<longleftrightarrow> isnan (Variables h ! 0 ! i)) \<and>
        (relative_humidity_2m (records ! i) = None \<longleftrightarrow> isnan (Variables h ! 1 ! i))"
    if "i < length records" for i
    using build_records_nth[OF b h that] by (simp add: nan_to_none_def)
  moreover have "valid = filter (\<lambda>r. temperature_2m r \<noteq> None \<and> relative_humidity_2m r \<noteq> None) records"
    using v by (simp add: is_valid_def[abs_def])
  ultimately show ?thesis using h b res by auto
qed

theorem process_response_nan_and_valid_witness:
  "process_response example_env example_response (Fin 47.37) (Fin 8) = Inr example_result \<and>
   (\<exists>records. build_records example_env example_response (Fin 47.37) (Fin 8)
                 = Inr (records, data example_result) \<and>
      (\<forall>i < length records.
         (temperature_2m (records ! i) = None \<longleftrightarrow> isnan ([Fin 21.347, NaN, Fin 19.2] ! i)) \<and>
         (relative_humidity_2m (records ! i) = None \<longleftrightarrow> isnan ([Fin 55.04, Fin 60] ! i))) \<and>
      data example_result =
        filter (\<lambda>r. temperature_2m r \<noteq> None \<and> relative_humidity_2m r \<noteq> None) records \<and>
      total_records (meta example_result) = length records \<and>
      valid_records (meta example_result) = length (data example_result))"
  using process_response_nan_and_valid[OF example_process_response] example_process_response
  by (auto simp: example_response_def)

text \<open>
  C5. In every record of an accepted response, a temperature that is present is the value
  of the temperature array at that index rounded to 2 decimal places by \<open>round\<close>, and a
  relative humidity that is present is the value of the humidity array rounded to 1
  decimal place.
\<close>

theorem process_response_rounding:
  assumes "process_response e response lat lon = Inr result"
  shows "\<exists>h records.
           Hourly response = Some h \<and>
           build_records e response lat lon = Inr (records, data result) \<and>
           (\<forall>i < length records.
              (\<forall>x. temperature_2m (records ! i) = Some x \<longrightarrow>
                     x = py_round e (Variables h ! 0 ! i) 2) \<and>
              (\<forall>x. relative_humidity_2m (records ! i) = Some x \<longrightarrow>
                     x = py_round e (Variables h ! 1 ! i) 1))"
proof -
  from assms obtain records valid where
    b: "build_records e response lat lon = Inr (records, valid)"
    by (auto simp: process_response_def split: sum.splits)
  with assms have res: "data result = valid"
    by (auto simp: process_response_def)
  from b obtain h where h: "Hourly response = Some h"
    by (rule build_records_Inr)
  have "(\<forall>x. temperature_2m (records ! i) = Some x \<longrightarrow> x = py_round e (Variables h ! 0 ! i) 2) \<and>
        (\<forall>x. relative_humidity_2m (records ! i) = Some x \<longrightarrow> x = py_round e (Variables h ! 1 ! i) 1)"
    if "i < length records" for i
    using build_records_nth[OF b h that]
    by (auto simp: nan_to_none_def round_opt_def split: if_splits)
  with h b res show ?thesis by auto
qed

theorem process_response_rounding_witness:
  "process_response example_env example_response (Fin 47.37) (Fin 8) = Inr example_result \<and>
   (\<exists>records. build_records example_env example_response (Fin 47.37) (Fin 8)
                 = Inr (records, data example_result) \<and>
      (\<forall>i < length records.
         (\<forall>x. temperature_2m (records ! i) = Some x \<longrightarrow>
                x = py_round example_env ([Fin 21.347, NaN, Fin 19.2] ! i) 2) \<and>
         (\<forall>x. relative_humidity_2m (records ! i) = Some x \<longrightarrow>
                x = py_round example_env ([Fin 55.04, Fin 60] ! i) 1)))"
  using process_response_rounding[OF example_process_response] example_process_response
  by (auto simp: example_response_def)

section \<open>The weather table\<close>

lemma insert_row_storable:
  "storable r \<Longrightarrow> \<exists>x. insert_row e r d = Inr \<lparr> rows = rows d @ [x],
       sequence = Suc (max (sequence d) (max_row_id (rows d))) \<rparr> \<and> stored_as r x"
  by (auto simp: storable_def insert_row_def stored_as_def Let_def split: option.splits)

lemma insert_row_not_storable:
  "\<not> storable r \<Longrightarrow> \<exists>m. insert_row e r d = Inl (IntegrityError m)"
  by (auto simp: storable_def insert_row_def split: option.splits)

lemma insert_loop_storable:
  "list_all storable rs \<Longrightarrow>
   \<exists>new d'. insert_loop e rs d n = Inr (n + length rs, d') \<and>
            rows d' = rows d @ new \<and> list_all2 stored_as rs new"
proof (induction rs arbitrary: d n)
  case Nil
  then show ?case by simp
next
  case (Cons r rs)
  then have "storable r" and rest: "list_all storable rs" by simp_all
  from insert_row_storable[OF this(1), of e d] obtain x d1 where
    ins: "insert_row e r d = Inr d1" and d1: "rows d1 = rows d @ [x]" and x: "stored_as r x"
    by fastforce
  from Cons.IH[OF rest, of d1 "n + 1"] obtain new d' where
    "insert_loop e rs d1 (n + 1) = Inr (n + 1 + length rs, d')"
    "rows d' = rows d1 @ new" "list_all2 stored_as rs new"
    by blast
  with ins d1 x have "insert_loop e (r # rs) d n = Inr (n + length (r # rs), d') \<and>
     rows d' = rows d @ (x # new) \<and> list_all2 stored_as (r # rs) (x # new)"
    by simp
  then show ?case by blast
qed

lemma insert_loop_not_storable:
  "\<not> list_all storable rs \<Longrightarrow> \<exists>m. insert_loop e rs d n = Inl (IntegrityError m)"
proof (induction rs arbitrary: d n)
  case Nil
  then show ?case by simp
next
  case (Cons r rs)
  show ?case
  proof (cases "storable r")
    case False
    from insert_row_not_storable[OF this, of e d] show ?thesis by auto
  next
    case True
    from insert_row_storable[OF True, of e d] obtain d1 where "insert_row e r d = Inr d1"
      by blast
    moreover from True Cons.prems have "\<not> list_all storable rs" by simp
    from Cons.IH[OF this, of d1 "n + 1"] obtain m where
      "insert_loop e rs d1 (n + 1) = Inl (IntegrityError m)" by blast
    ultimately show ?thesis by simp
  qed
qed

lemma store_storable:
  assumes "list_all storable records"
  shows "\<exists>new d'. store_weather_data e records d = (Inr (length records), d') \<and>
            rows d' = rows d @ new \<and> list_all2 stored_as records new"
proof -
  from insert_loop_storable[OF assms, of e d 0] obtain new d' where
    "insert_loop e records d 0 = Inr (length records, d')" "rows d' = rows d @ new"
    "list_all2 stored_as records new" by auto
  then show ?thesis by (auto simp: store_weather_data_def)
qed

lemma store_not_storable:
  assumes "\<not> list_all storable records"
  shows "\<exists>m. store_weather_data e records d = (Inl (IntegrityError m), d)"
  using insert_loop_not_storable[OF assms, of e d 0]
  by (auto simp: store_weather_data_def)

lemma get_recent_data_db [simp]: "snd (get_recent_data e hours d) = d"
  by (simp add: get_recent_data_def)

lemma generate_excel_report_db [simp]: "snd (generate_excel_report e hours d) = d"
  by (simp add: generate_excel_report_def get_recent_data_def Let_def split: sum.splits)

lemma generate_pdf_report_db [simp]: "snd (generate_pdf_report e hours d) = d"
  by (simp add: generate_pdf_report_def get_recent_data_def Let_def split: sum.splits)

lemma get_data_summary_db [simp]: "snd (get_data_summary d) = d"
  by (simp add: get_data_summary_def Let_def)

lemma store_weather_data_extends:
  "\<exists>new. rows (snd (store_weather_data e records d)) = rows d @ new"
proof (cases "list_all storable records")
  case True
  from store_storable[OF True, of e d] show ?thesis by auto
next
  case False
  from store_not_storable[OF False, of e d] show ?thesis by auto
qed

lemma export_excel_world [simp]: "snd (export_excel e arg w) = w"
proof -
  obtain res d' where g: "generate_excel_report e (hours_param arg) (db w) = (res, d')"
    by (cases "generate_excel_report e (hours_param arg) (db w)")
  with generate_excel_report_db[of e "hours_param arg" "db w"] have "d' = db w" by simp
  with g show ?thesis
    by (simp add: export_excel_def Let_def split: sum.splits)
qed

lemma export_pdf_world [simp]: "snd (export_pdf e arg w) = w"
proof -
  obtain res d' where g: "generate_pdf_report e (hours_param arg) (db w) = (res, d')"
    by (cases "generate_pdf_report e (hours_param arg) (db w)")
  with generate_pdf_report_db[of e "hours_param arg" "db w"] have "d' = db w" by simp
  with g show ?thesis
    by (simp add: export_pdf_def Let_def split: sum.splits)
qed

lemma data_summary_route_world [simp]: "snd (data_summary_route w) = w"
  by (simp add: data_summary_route_def get_data_summary_def Let_def)

lemma recent_data_route_world [simp]: "snd (recent_data_route e arg w) = w"
  by (simp add: recent_data_route_def get_recent_data_def Let_def)

lemma get_weather_report_extends:
  "\<exists>new. rows (db (snd (get_weather_report e lat_arg lon_arg w))) = rows (db w) @ new"
proof -
  have "\<exists>new. rows d' = rows (db w) @ new"
    if "store_weather_data e records (db w) = (res, d')" for records res d'
    using store_weather_data_extends[of e records "db w"] that by simp
  then show ?thesis
    by (auto simp: get_weather_report_def split: option.splits prod.splits sum.splits)
qed

lemma handle_extends:
  "\<exists>new. rows (db (snd (handle e req w))) = rows (db w) @ new"
  by (cases req) (simp_all add: get_weather_report_extends)

lemma handle_all_extends:
  "\<exists>new. rows (db (handle_all e reqs w)) = rows (db w) @ new"
proof (induction reqs arbitrary: w)
  case Nil
  then show ?case by simp
next
  case (Cons req reqs)
  from handle_extends[of e req w] obtain new1 where
    "rows (db (snd (handle e req w))) = rows (db w) @ new1" by blast
  moreover from Cons.IH[of "snd (handle e req w)"] obtain new2 where
    "rows (db (handle_all e reqs (snd (handle e req w)))) =
       rows (db (snd (handle e req w))) @ new2" by blast
  ultimately show ?case by simp
qed

lemma valid_latitude_iff:
  "valid_latitude lat \<longleftrightarrow> (\<exists>x. lat = Fin x \<and> - 90 \<le> x \<and> x \<le> 90)"
  by (cases lat) (simp_all add: valid_latitude_def)

lemma valid_longitude_iff:
  "valid_longitude lon \<longleftrightarrow> (\<exists>x. lon = Fin x \<and> - 180 \<le> x \<and> x \<le> 180)"
  by (cases lon) (simp_all add: valid_longitude_def)

lemma build_records_fields:
  assumes "build_records e response lat lon = Inr (records, valid)" and "r \<in> set records"
  shows "latitude r = Some lat \<and> longitude r = Some lon \<and>
         (\<exists>t ts. fromtimestamp_isoformat e t = Inr ts \<and> timestamp r = Some ts)"
proof -
  from assms(1) obtain h :: hourly and times where
    r: "records = map (record_of e (Variables h ! 0) (Variables h ! 1) lat lon)
                 (enumerate 0 (take (min (length (Variables h ! 0)) (length (Variables h ! 1))) times))" and
    ok: "list_all (\<lambda>(i, t). fromtimestamp_isoformat e t = Inr (iso_of e t))
       (enumerate 0 (take (min (length (Variables h ! 0)) (length (Variables h ! 1))) times))"
    by (rule build_records_Inr)
  from assms(2) r obtain i t where
    it: "(i, t) \<in> set (enumerate 0 (take (min (length (Variables h ! 0)) (length (Variables h ! 1))) times))"
    and rr: "r = record_of e (Variables h ! 0) (Variables h ! 1) lat lon (i, t)"
    by auto
  from ok it have "fromtimestamp_isoformat e t = Inr (iso_of e t)"
    by (auto simp: list_all_iff)
  with rr show ?thesis by (auto simp: record_of_def make_record_def)
qed

lemma process_response_data_fields:
  assumes "process_response e response lat lon = Inr result" and "r \<in> set (data result)"
  shows "latitude r = Some lat \<and> longitude r = Some lon \<and>
         (\<exists>t ts. fromtimestamp_isoformat e t = Inr ts \<and> timestamp r = Some ts)"
proof -
  from assms(1) obtain records valid where
    b: "build_records e response lat lon = Inr (records, valid)" and "data result = valid"
    by (auto simp: process_response_def split: sum.splits)
  moreover from b have "valid = filter is_valid records" by (rule build_records_Inr)
  ultimately have "r \<in> set records" using assms(2) by simp
  from build_records_fields[OF b this] show ?thesis .
qed

lemma fetch_weather_data_Inr:
  assumes "fetch_weather_data e lat_arg lon_arg days calls = (Inr result, calls')"
  obtains lat lon response where "lat_arg = Some lat" "lon_arg = Some lon"
    "valid_latitude lat" "valid_longitude lon"
    "process_response e response lat lon = Inr result"
proof -
  from assms obtain lat lon where a: "lat_arg = Some lat" "lon_arg = Some lon"
    by (auto simp: fetch_weather_data_def split: option.splits)
  from assms a have v: "valid_latitude lat" "valid_longitude lon"
    by (auto simp: fetch_weather_data_def split: if_splits)
  from assms a v obtain ps where "call_api e ps lat lon calls = (Inr result, calls')"
    by (auto simp: fetch_weather_data_def Let_def split: sum.splits prod.splits option.splits)
  then obtain response where "process_response e response lat lon = Inr result"
    by (auto simp: call_api_def Let_def split: sum.splits if_splits option.splits)
  with a v that show thesis by blast
qed

lemma fetch_weather_data_storable:
  assumes "fetch_weather_data e lat_arg lon_arg days calls = (Inr result, calls')"
  shows "list_all storable (data result)"
proof -
  from assms obtain lat lon response where
    v: "valid_latitude lat" "valid_longitude lon" and
    p: "process_response e response lat lon = Inr result"
    by (rule fetch_weather_data_Inr)
  from v have "bind_real (Some lat) \<noteq> None" "bind_real (Some lon) \<noteq> None"
    by (auto simp: valid_latitude_iff valid_longitude_iff bind_real_def)
  with process_response_data_fields[OF p] show ?thesis
    by (fastforce simp: list_all_iff storable_def)
qed

lemma storable_iff:
  "storable r \<longleftrightarrow>
     timestamp r \<noteq> None \<and> latitude r \<notin> {None, Some NaN} \<and> longitude r \<notin> {None, Some NaN}"
proof -
  have "bind_real v \<noteq> None \<longleftrightarrow> v \<notin> {None, Some NaN}" for v
    by (cases v; cases "the v") (simp_all add: bind_real_def)
  then show ?thesis by (simp add: storable_def)
qed

lemma example_storable:
  "storable example_record" "storable example_record_no_temperature"
  "\<not> storable example_record_no_latitude"
  by (simp_all add: storable_def example_record_def example_record_no_temperature_def
      example_record_no_latitude_def bind_real_def)

lemma example_env_fields:
  "date_params example_env days = Some (''2024-01-01'', ''2024-01-03'')"
  "direct_request example_env ps = Inr 200"
  "direct_inspect example_env ps = None"
  "weather_api example_env ps = Inr [example_response]"
  by (simp_all add: example_env_def)

lemma example_valid_coordinates:
  "valid_latitude (Fin 47.37)" "valid_longitude (Fin 8)" "\<not> valid_latitude (Fin 91)"
  by (simp_all add: valid_latitude_def valid_longitude_def)

lemma fetch_weather_data_returns:
  assumes "valid_latitude lat" "valid_longitude lon"
    and "date_params e days = Some (start_date, end_date)"
    and "ps = \<lparr> p_latitude = lat, p_longitude = lon,
                  p_start_date = start_date, p_end_date = end_date \<rparr>"
    and "direct_request e ps = Inr 200" "direct_inspect e ps = None"
    and "weather_api e ps = Inr (response # others)"
    and "process_response e response lat lon = Inr result"
  shows "fetch_weather_data e (Some lat) (Some lon) days calls =
           (Inr result, calls @ [DirectGet ps, ClientCall ps])"
  using assms by (simp add: fetch_weather_data_def call_api_def Let_def)

lemma example_process_response_nan:
  "process_response (example_env\<lparr>weather_api := \<lambda>ps. Inr [example_response_nan]\<rparr>)
     example_response_nan (Fin 47.37) (Fin 8) = Inr example_result_nan"
  by (simp add: example_env_def process_response_def build_records_def
      example_response_nan_def py_range_def range_length_def enumerate_eq_zip
      nan_to_none_def make_record_def round_opt_def example_iso_def Let_def
      example_result_nan_def)

lemma example_fetch:
  "fetch_weather_data example_env (Some (Fin 47.37)) (Some (Fin 8)) 2 [] =
     (Inr example_result, [DirectGet example_params, ClientCall example_params])"
  using fetch_weather_data_returns[OF example_valid_coordinates(1,2) example_env_fields(1)
      example_params_def example_env_fields(2,3,4)
      example_process_response, of 2 "[]"]
  by simp

lemma example_fetch_nan:
  "fetch_weather_data (example_env\<lparr>weather_api := \<lambda>ps. Inr [example_response_nan]\<rparr>)
     (Some (Fin 47.37)) (Some (Fin 8)) 2 [] =
     (Inr example_result_nan, [DirectGet example_params, ClientCall example_params])"
proof -
  let ?e = "example_env\<lparr>weather_api := \<lambda>ps. Inr [example_response_nan]\<rparr>"
  have "date_params ?e 2 = Some (''2024-01-01'', ''2024-01-03'')"
    "direct_request ?e example_params = Inr 200" "direct_inspect ?e example_params = None"
    "weather_api ?e example_params = Inr [example_response_nan]"
    by (simp_all add: example_env_def)
  from fetch_weather_data_returns[OF example_valid_coordinates(1,2) this(1)
      example_params_def this(2,3,4) example_process_response_nan,
      of "[]"]
  show ?thesis by simp
qed

lemma example_storable_more:
  "\<not> storable example_record_nan_latitude" "storable example_record_other_text"
  by (simp_all add: storable_def example_record_nan_latitude_def example_record_other_text_def
      bind_real_def)

lemma list_all_storable_iff:
  "list_all storable records \<longleftrightarrow>
   list_all (\<lambda>r. timestamp r \<noteq> None \<and> latitude r \<notin> {None, Some NaN} \<and>
                 longitude r \<notin> {None, Some NaN}) records"
  by (simp add: list_all_iff storable_iff)

lemma build_records_timestamps:
  assumes "build_records e response lat lon = Inr (built, valid)"
  shows "\<exists>h times.
           Hourly response = Some h \<and>
           py_range (Time h) (TimeEnd h) (Interval h) = Inr times \<and>
           set valid \<subseteq> set built \<and>
           (\<forall>i < length built. \<exists>ts.
              fromtimestamp_isoformat e (times ! i) = Inr ts \<and>
              timestamp (built ! i) = Some ts \<and>
              latitude (built ! i) = Some lat \<and> longitude (built ! i) = Some lon)"
proof -
  from assms obtain h times where
    h: "Hourly response = Some h" and
    t: "py_range (Time h) (TimeEnd h) (Interval h) = Inr times" and
    r: "built = map (record_of e (Variables h ! 0) (Variables h ! 1) lat lon)
                 (enumerate 0 (take (min (length (Variables h ! 0)) (length (Variables h ! 1))) times))" and
    v: "valid = filter is_valid built" and
    ok: "list_all (\<lambda>(i, t). fromtimestamp_isoformat e t = Inr (iso_of e t))
       (enumerate 0 (take (min (length (Variables h ! 0)) (length (Variables h ! 1))) times))"
    by (rule build_records_Inr)
  let ?m = "min (length (Variables h ! 0)) (length (Variables h ! 1))"
  have "\<exists>ts. fromtimestamp_isoformat e (times ! i) = Inr ts \<and>
             timestamp (built ! i) = Some ts \<and>
             latitude (built ! i) = Some lat \<and> longitude (built ! i) = Some lon"
    if i: "i < length built" for i
  proof -
    from i have i': "i < length (take ?m times)" by (simp add: r)
    then have "(i, take ?m times ! i) \<in> set (enumerate 0 (take ?m times))"
      by (simp add: in_set_enumerate_eq)
    with ok have "fromtimestamp_isoformat e (take ?m times ! i) = Inr (iso_of e (take ?m times ! i))"
      by (auto simp: list_all_iff)
    moreover from i' have "take ?m times ! i = times ! i" by simp
    moreover from i' have "built ! i = make_record e (iso_of e (take ?m times ! i))
        (nan_to_none (Variables h ! 0 ! i)) (nan_to_none (Variables h ! 1 ! i)) lat lon"
      unfolding r by (simp add: record_of_nth)
    ultimately show ?thesis by (simp add: make_record_def)
  qed
  moreover from v have "set valid \<subseteq> set built" by auto
  ultimately show ?thesis using h t by blast
qed

lemma example_iso_is_iso8601:
  "fromtimestamp_isoformat example_env t = Inr s \<Longrightarrow> iso8601 s"
  by (auto simp: example_env_def example_iso_def iso8601_def is_digit_def split: if_splits)

text \<open>
  C3, as the code has it. Temperature and relative humidity are nullable; timestamp,
  latitude and longitude are not: \<open>store_weather_data\<close> accepts a list of records exactly
  when each of them has a timestamp that is not \<open>None\<close> and a latitude and a longitude
  that are neither \<open>None\<close> nor NaN, whatever its temperature and humidity, and otherwise
  raises \<open>IntegrityError\<close> and leaves the table as it was. The store takes any text as
  timestamp. Every record that \<open>_process_response\<close> builds, returned in \<open>data\<close> or not,
  carries the coordinates it was given and, as timestamp, the \<open>isoformat()\<close> string of its
  own time point, which is an ISO 8601 string as far as \<open>isoformat()\<close> gives one.
\<close>

theorem store_accepts_iff:
  "((\<exists>d'. store_weather_data e records d = (Inr (length records), d')) \<longleftrightarrow>
      list_all (\<lambda>r. timestamp r \<noteq> None \<and> latitude r \<notin> {None, Some NaN} \<and>
                    longitude r \<notin> {None, Some NaN}) records) \<and>
   ((\<exists>m. store_weather_data e records d = (Inl (IntegrityError m), d)) \<longleftrightarrow>
      \<not> list_all (\<lambda>r. timestamp r \<noteq> None \<and> latitude r \<notin> {None, Some NaN} \<and>
                      longitude r \<notin> {None, Some NaN}) records) \<and>
   (storable r \<longleftrightarrow>
      timestamp r \<noteq> None \<and> latitude r \<notin> {None, Some NaN} \<and> longitude r \<notin> {None, Some NaN}) \<and>
   (storable r \<longrightarrow> storable (r\<lparr>temperature_2m := None, relative_humidity_2m := None\<rparr>)) \<and>
   (storable r \<longrightarrow> storable (r\<lparr>timestamp := Some text\<rparr>)) \<and>
   (process_response e response lat lon = Inr result \<longrightarrow>
      (\<exists>h times built.
          Hourly response = Some h \<and>
          py_range (Time h) (TimeEnd h) (Interval h) = Inr times \<and>
          build_records e response lat lon = Inr (built, data result) \<and>
          set (data result) \<subseteq> set built \<and>
          (\<forall>i < length built. \<exists>ts.
             fromtimestamp_isoformat e (times ! i) = Inr ts \<and>
             timestamp (built ! i) = Some ts \<and>
             latitude (built ! i) = Some lat \<and> longitude (built ! i) = Some lon) \<and>
          ((\<forall>t s. fromtimestamp_isoformat e t = Inr s \<longrightarrow> iso8601 s) \<longrightarrow>
             (\<forall>x \<in> set built. \<exists>s. timestamp x = Some s \<and> iso8601 s))))"
proof -
  have a: "(\<exists>d'. store_weather_data e records d = (Inr (length records), d')) \<longleftrightarrow>
      list_all storable records"
  proof (cases "list_all storable records")
    case True
    from store_storable[OF True, of e d] True show ?thesis by auto
  next
    case False
    from store_not_storable[OF False, of e d] False show ?thesis by auto
  qed
  have b: "(\<exists>m. store_weather_data e records d = (Inl (IntegrityError m), d)) \<longleftrightarrow>
      \<not> list_all storable records"
  proof (cases "list_all storable records")
    case True
    from store_storable[OF True, of e d] True show ?thesis by auto
  next
    case False
    from store_not_storable[OF False, of e d] False show ?thesis by auto
  qed
  have c: "storable r \<longrightarrow> storable (r\<lparr>temperature_2m := None, relative_humidity_2m := None\<rparr>)"
    "storable r \<longrightarrow> storable (r\<lparr>timestamp := Some text\<rparr>)"
    by (simp_all add: storable_def)
  have d: "\<exists>h times built.
          Hourly response = Some h \<and>
          py_range (Time h) (TimeEnd h) (Interval h) = Inr times \<and>
          build_records e response lat lon = Inr (built, data result) \<and>
          set (data result) \<subseteq> set built \<and>
          (\<forall>i < length built. \<exists>ts.
             fromtimestamp_isoformat e (times ! i) = Inr ts \<and>
             timestamp (built ! i) = Some ts \<and>
             latitude (built ! i) = Some lat \<and> longitude (built ! i) = Some lon) \<and>
          ((\<forall>t s. fromtimestamp_isoformat e t = Inr s \<longrightarrow> iso8601 s) \<longrightarrow>
             (\<forall>x \<in> set built. \<exists>s. timestamp x = Some s \<and> iso8601 s))"
    if p: "process_response e response lat lon = Inr result"
  proof -
    from p obtain built valid where
      bl: "build_records e response lat lon = Inr (built, valid)" and dv: "data result = valid"
      by (auto simp: process_response_def split: sum.splits)
    from build_records_timestamps[OF bl] obtain h times where
      h: "Hourly response = Some h"
        "py_range (Time h) (TimeEnd h) (Interval h) = Inr times"
        "set valid \<subseteq> set built" and
      ix: "\<forall>i < length built. \<exists>ts.
             fromtimestamp_isoformat e (times ! i) = Inr ts \<and>
             timestamp (built ! i) = Some ts \<and>
             latitude (built ! i) = Some lat \<and> longitude (built ! i) = Some lon"
      by blast
    have "\<forall>x \<in> set built. \<exists>s. timestamp x = Some s \<and> iso8601 s"
      if iso: "\<forall>t s. fromtimestamp_isoformat e t = Inr s \<longrightarrow> iso8601 s"
    proof
      fix x assume "x \<in> set built"
      then obtain i where "i < length built" "x = built ! i" by (auto simp: in_set_conv_nth)
      with ix iso show "\<exists>s. timestamp x = Some s \<and> iso8601 s" by blast
    qed
    with h ix bl dv show ?thesis by blast
  qed
  from a b c d storable_iff[of r] list_all_storable_iff[of records] show ?thesis by blast
qed

theorem store_accepts_iff_witness:
  "list_all (\<lambda>r. timestamp r \<noteq> None \<and> latitude r \<notin> {None, Some NaN} \<and>
                longitude r \<notin> {None, Some NaN}) [example_record_no_temperature] \<and>
   (\<exists>d'. store_weather_data example_env [example_record_no_temperature] example_db
           = (Inr 1, d')) \<and>
   \<not> list_all (\<lambda>r. timestamp r \<noteq> None \<and> latitude r \<notin> {None, Some NaN} \<and>
                  longitude r \<notin> {None, Some NaN}) [example_record_no_latitude] \<and>
   (\<exists>m. store_weather_data example_env [example_record_no_latitude] example_db
          = (Inl (IntegrityError m), example_db)) \<and>
   \<not> list_all (\<lambda>r. timestamp r \<noteq> None \<and> latitude r \<notin> {None, Some NaN} \<and>
                  longitude r \<notin> {None, Some NaN}) [example_record_nan_latitude] \<and>
   (\<exists>m. store_weather_data example_env [example_record_nan_latitude] example_db
          = (Inl (IntegrityError m), example_db)) \<and>
   storable example_record \<and>
   storable (example_record\<lparr>temperature_2m := None, relative_humidity_2m := None\<rparr>) \<and>
   storable (example_record\<lparr>timestamp := Some ''yesterday''\<rparr>) \<and>
   process_response example_env example_response (Fin 47.37) (Fin 8) = Inr example_result \<and>
   (\<exists>built. build_records example_env example_response (Fin 47.37) (Fin 8)
               = Inr (built, data example_result) \<and>
      set (data example_result) \<subseteq> set built \<and>
      (\<forall>i < length built. \<exists>ts.
          fromtimestamp_isoformat example_env ([0, 3600, 7200] ! i) = Inr ts \<and>
          timestamp (built ! i) = Some ts \<and>
          latitude (built ! i) = Some (Fin 47.37) \<and> longitude (built ! i) = Some (Fin 8)) \<and>
      (\<forall>x \<in> set built. \<exists>s. timestamp x = Some s \<and> iso8601 s))"
proof -
  note t1 = store_accepts_iff[of example_env "[example_record_no_temperature]" example_db
          example_record "''yesterday''" example_response "Fin 47.37" "Fin 8" example_result]
  note t2 = store_accepts_iff[of example_env "[example_record_no_latitude]" example_db
          example_record "''yesterday''" example_response "Fin 47.37" "Fin 8" example_result]
  note t3 = store_accepts_iff[of example_env "[example_record_nan_latitude]" example_db
          example_record "''yesterday''" example_response "Fin 47.37" "Fin 8" example_result]
  have s: "list_all (\<lambda>r. timestamp r \<noteq> None \<and> latitude r \<notin> {None, Some NaN} \<and>
                longitude r \<notin> {None, Some NaN}) [example_record_no_temperature]"
    "\<not> list_all (\<lambda>r. timestamp r \<noteq> None \<and> latitude r \<notin> {None, Some NaN} \<and>
                  longitude r \<notin> {None, Some NaN}) [example_record_no_latitude]"
    "\<not> list_all (\<lambda>r. timestamp r \<noteq> None \<and> latitude r \<notin> {None, Some NaN} \<and>
                  longitude r \<notin> {None, Some NaN}) [example_record_nan_latitude]"
    by (simp_all add: example_record_no_temperature_def example_record_no_latitude_def
        example_record_nan_latitude_def)
  from t1 s(1) have a1: "\<exists>d'. store_weather_data example_env [example_record_no_temperature]
      example_db = (Inr 1, d')" by simp
  from t2 s(2) have a2: "\<exists>m. store_weather_data example_env [example_record_no_latitude]
      example_db = (Inl (IntegrityError m), example_db)" by blast
  from t3 s(3) have a3: "\<exists>m. store_weather_data example_env [example_record_nan_latitude]
      example_db = (Inl (IntegrityError m), example_db)" by blast
  from t1 example_storable(1)
  have a4: "storable (example_record\<lparr>temperature_2m := None, relative_humidity_2m := None\<rparr>)"
    "storable (example_record\<lparr>timestamp := Some ''yesterday''\<rparr>)" by blast+
  have iso: "\<forall>t s. fromtimestamp_isoformat example_env t = Inr s \<longrightarrow> iso8601 s"
    using example_iso_is_iso8601 by blast
  from t1 example_process_response iso obtain h times built where
    b: "Hourly example_response = Some h"
      "py_range (Time h) (TimeEnd h) (Interval h) = Inr times"
      "build_records example_env example_response (Fin 47.37) (Fin 8)
         = Inr (built, data example_result)"
      "set (data example_result) \<subseteq> set built"
      "\<forall>i < length built. \<exists>ts.
          fromtimestamp_isoformat example_env (times ! i) = Inr ts \<and>
          timestamp (built ! i) = Some ts \<and>
          latitude (built ! i) = Some (Fin 47.37) \<and> longitude (built ! i) = Some (Fin 8)"
      "\<forall>x \<in> set built. \<exists>s. timestamp x = Some s \<and> iso8601 s"
    by blast
  from b(1,2) have "times = [0, 3600, 7200]"
    by (auto simp: example_response_def example_py_range)
  with b have a5: "\<exists>built. build_records example_env example_response (Fin 47.37) (Fin 8)
               = Inr (built, data example_result) \<and>
      set (data example_result) \<subseteq> set built \<and>
      (\<forall>i < length built. \<exists>ts.
          fromtimestamp_isoformat example_env ([0, 3600, 7200] ! i) = Inr ts \<and>
          timestamp (built ! i) = Some ts \<and>
          latitude (built ! i) = Some (Fin 47.37) \<and> longitude (built ! i) = Some (Fin 8)) \<and>
      (\<forall>x \<in> set built. \<exists>s. timestamp x = Some s \<and> iso8601 s)"
    by blast
  from s a1 a2 a3 a4 a5 example_storable(1) example_process_response
  show ?thesis by (intro conjI)
qed

text \<open>
  C3 as stated fails: a record whose latitude is \<open>None\<close> is not accepted by the store, and
  a record whose timestamp is a text that is no ISO 8601 string is accepted.
\<close>

theorem store_rejects_null_latitude:
  "store_weather_data example_env [example_record_no_latitude] empty_db =
     (Inl (IntegrityError ''NOT NULL constraint failed: weather_data.latitude''), empty_db) \<and>
   timestamp example_record_other_text = Some ''yesterday'' \<and>
   \<not> iso8601 ''yesterday'' \<and>
   fst (store_weather_data example_env [example_record_other_text] empty_db) = Inr 1"
  by (simp add: store_weather_data_def insert_row_def example_record_no_latitude_def
      example_record_other_text_def bind_real_def iso8601_def empty_db_def max_row_id_def)

text \<open>
  C4, as the code has it. Whatever requests the service handles, the old rows stay in place
  at the front of the table, so no row is updated or deleted and the row count never
  decreases. \<open>store_weather_data\<close> called with \<open>k\<close> records that each have a timestamp that
  is not \<open>None\<close> and a latitude and a longitude that are neither \<open>None\<close> nor NaN appends
  exactly \<open>k\<close> rows holding the records' values and returns \<open>k\<close>; called again with the same
  records it appends \<open>k\<close> further rows with the same values. When one of the records lacks
  one of the three values, or has NaN as latitude or longitude, the call raises and
  appends nothing.
\<close>

theorem weather_table_append_only:
  "(\<exists>new. rows (db (handle_all e reqs w)) = rows (db w) @ new) \<and>
   (list_all (\<lambda>r. timestamp r \<noteq> None \<and> latitude r \<notin> {None, Some NaN} \<and>
                 longitude r \<notin> {None, Some NaN}) records \<longrightarrow>
      (\<exists>new1 new2 d1 d2.
          store_weather_data e records d = (Inr (length records), d1) \<and>
          rows d1 = rows d @ new1 \<and> length new1 = length records \<and>
          list_all2 stored_as records new1 \<and>
          store_weather_data e records d1 = (Inr (length records), d2) \<and>
          rows d2 = rows d @ new1 @ new2 \<and> length new2 = length records \<and>
          list_all2 stored_as records new2)) \<and>
   (\<not> list_all (\<lambda>r. timestamp r \<noteq> None \<and> latitude r \<notin> {None, Some NaN} \<and>
                   longitude r \<notin> {None, Some NaN}) records \<longrightarrow>
      (\<exists>m. store_weather_data e records d = (Inl (IntegrityError m), d)))"
proof -
  have "\<exists>new1 new2 d1 d2.
          store_weather_data e records d = (Inr (length records), d1) \<and>
          rows d1 = rows d @ new1 \<and> length new1 = length records \<and>
          list_all2 stored_as records new1 \<and>
          store_weather_data e records d1 = (Inr (length records), d2) \<and>
          rows d2 = rows d @ new1 @ new2 \<and> length new2 = length records \<and>
          list_all2 stored_as records new2"
    if ok: "list_all storable records"
  proof -
    from store_storable[OF ok, of e d] obtain new1 d1 where
      s1: "store_weather_data e records d = (Inr (length records), d1)"
        "rows d1 = rows d @ new1" "list_all2 stored_as records new1" by blast
    from store_storable[OF ok, of e d1] obtain new2 d2 where
      s2: "store_weather_data e records d1 = (Inr (length records), d2)"
        "rows d2 = rows d1 @ new2" "list_all2 stored_as records new2" by blast
    from s1(3) have l1: "length new1 = length records"
      by (metis list_all2_lengthD)
    from s2(3) have l2: "length new2 = length records"
      by (metis list_all2_lengthD)
    from s1 s2 l1 l2 show ?thesis by auto
  qed
  with handle_all_extends[of e reqs w] store_not_storable[of records e d]
    list_all_storable_iff[of records]
  show ?thesis by blast
qed

theorem weather_table_append_only_witness:
  "list_all (\<lambda>r. timestamp r \<noteq> None \<and> latitude r \<notin> {None, Some NaN} \<and>
                longitude r \<notin> {None, Some NaN})
     [example_record, example_record_no_temperature] \<and>
   (\<exists>new1 new2 d1 d2.
       store_weather_data example_env [example_record, example_record_no_temperature] example_db
         = (Inr 2, d1) \<and>
       rows d1 = rows example_db @ new1 \<and> length new1 = 2 \<and>
       list_all2 stored_as [example_record, example_record_no_temperature] new1 \<and>
       store_weather_data example_env [example_record, example_record_no_temperature] d1
         = (Inr 2, d2) \<and>
       rows d2 = rows example_db @ new1 @ new2 \<and> length new2 = 2 \<and>
       list_all2 stored_as [example_record, example_record_no_temperature] new2) \<and>
   \<not> list_all (\<lambda>r. timestamp r \<noteq> None \<and> latitude r \<notin> {None, Some NaN} \<and>
                  longitude r \<notin> {None, Some NaN}) [example_record_no_latitude] \<and>
   (\<exists>m. store_weather_data example_env [example_record_no_latitude] example_db
          = (Inl (IntegrityError m), example_db)) \<and>
   \<not> list_all (\<lambda>r. timestamp r \<noteq> None \<and> latitude r \<notin> {None, Some NaN} \<and>
                  longitude r \<notin> {None, Some NaN}) [example_record_nan_latitude] \<and>
   (\<exists>m. store_weather_data example_env [example_record_nan_latitude] example_db
          = (Inl (IntegrityError m), example_db)) \<and>
   (\<exists>new. rows (db (handle_all example_env
                      [WeatherReport (Some (Fin 47.37)) (Some (Fin 8)), ExportPdf None]
                      example_world)) = rows (db example_world) @ new)"
proof -
  have s: "list_all (\<lambda>r. timestamp r \<noteq> None \<and> latitude r \<notin> {None, Some NaN} \<and>
                longitude r \<notin> {None, Some NaN})
     [example_record, example_record_no_temperature]"
    "\<not> list_all (\<lambda>r. timestamp r \<noteq> None \<and> latitude r \<notin> {None, Some NaN} \<and>
                  longitude r \<notin> {None, Some NaN}) [example_record_no_latitude]"
    "\<not> list_all (\<lambda>r. timestamp r \<noteq> None \<and> latitude r \<notin> {None, Some NaN} \<and>
                  longitude r \<notin> {None, Some NaN}) [example_record_nan_latitude]"
    by (simp_all add: example_record_def example_record_no_temperature_def
        example_record_no_latitude_def example_record_nan_latitude_def)
  note t1 = weather_table_append_only[of example_env
          "[WeatherReport (Some (Fin 47.37)) (Some (Fin 8)), ExportPdf None]" example_world
          "[example_record, example_record_no_temperature]" example_db]
  note t2 = weather_table_append_only[of example_env "[]" example_world
          "[example_record_no_latitude]" example_db]
  note t3 = weather_table_append_only[of example_env "[]" example_world
          "[example_record_nan_latitude]" example_db]
  from t1[THEN conjunct2, THEN conjunct1, rule_format, OF s(1)]
  have a1: "\<exists>new1 new2 d1 d2.
       store_weather_data example_env [example_record, example_record_no_temperature] example_db
         = (Inr 2, d1) \<and>
       rows d1 = rows example_db @ new1 \<and> length new1 = 2 \<and>
       list_all2 stored_as [example_record, example_record_no_temperature] new1 \<and>
       store_weather_data example_env [example_record, example_record_no_temperature] d1
         = (Inr 2, d2) \<and>
       rows d2 = rows example_db @ new1 @ new2 \<and> length new2 = 2 \<and>
       list_all2 stored_as [example_record, example_record_no_temperature] new2"
    by (simp add: numeral_2_eq_2)
  note a2 = t2[THEN conjunct2, THEN conjunct2, rule_format, OF s(2)]
  note a3 = t3[THEN conjunct2, THEN conjunct2, rule_format, OF s(3)]
  note a4 = t1[THEN conjunct1]
  from s(1) a1 s(2) a2 s(3) a3 a4 show ?thesis by (intro conjI)
qed

text \<open>
  C4 as stated fails: called with a list of one record that has no latitude,
  \<open>store_weather_data\<close> inserts no row and returns no count.
\<close>

theorem store_raises_on_null_latitude:
  "store_weather_data example_env [example_record_no_latitude] example_db =
     (Inl (IntegrityError ''NOT NULL constraint failed: weather_data.latitude''), example_db)"
  by (simp add: store_weather_data_def insert_row_def example_record_no_latitude_def
      bind_real_def)

text \<open>
  C8. When the fetch of a \<open>/weather-report\<close> request returns a result, the handler answers
  200, every record of the \<open>data\<close> list is appended as a row of the table, and
  \<open>database_stored\<close> is the number of these records; when \<open>data\<close> is empty that number is 0
  and the database is unchanged.
\<close>

theorem weather_report_persists:
  assumes "fetch_weather_data e lat_arg lon_arg 2 (api_calls w) = (Inr result, calls')"
  shows "\<exists>new d'.
           get_weather_report e lat_arg lon_arg w =
             (\<lparr> code = 200, body = ReportBody result (length (data result)) \<rparr>,
              \<lparr> db = d', api_calls = calls' \<rparr>) \<and>
           rows d' = rows (db w) @ new \<and>
           list_all2 stored_as (data result) new \<and>
           (data result = [] \<longrightarrow> d' = db w)"
proof -
  from assms obtain lat lon where
    a: "lat_arg = Some lat" "lon_arg = Some lon" and
    v: "valid_latitude lat" "valid_longitude lon"
    by (rule fetch_weather_data_Inr)
  show ?thesis
  proof (cases "data result = []")
    case True
    with assms a v have "get_weather_report e lat_arg lon_arg w =
        (\<lparr> code = 200, body = ReportBody result (length (data result)) \<rparr>,
         \<lparr> db = db w, api_calls = calls' \<rparr>)"
      by (simp add: get_weather_report_def)
    with True show ?thesis by simp
  next
    case False
    from fetch_weather_data_storable[OF assms] have "list_all storable (data result)" .
    from store_storable[OF this, of e "db w"] obtain new d' where
      s: "store_weather_data e (data result) (db w) = (Inr (length (data result)), d')"
        "rows d' = rows (db w) @ new" "list_all2 stored_as (data result) new" by blast
    with assms a v False have "get_weather_report e lat_arg lon_arg w =
        (\<lparr> code = 200, body = ReportBody result (length (data result)) \<rparr>,
         \<lparr> db = d', api_calls = calls' \<rparr>)"
      by (simp add: get_weather_report_def)
    with s False show ?thesis by blast
  qed
qed

theorem weather_report_persists_witness:
  "fetch_weather_data example_env (Some (Fin 47.37)) (Some (Fin 8)) 2 (api_calls example_world) =
     (Inr example_result, [DirectGet example_params, ClientCall example_params]) \<and>
   (\<exists>new d'.
       get_weather_report example_env (Some (Fin 47.37)) (Some (Fin 8)) example_world =
         (\<lparr> code = 200, body = ReportBody example_result 1 \<rparr>,
          \<lparr> db = d', api_calls = [DirectGet example_params, ClientCall example_params] \<rparr>) \<and>
       rows d' = rows (db example_world) @ new \<and>
       list_all2 stored_as (data example_result) new) \<and>
   data example_result_nan = [] \<and>
   get_weather_report (example_env\<lparr>weather_api := \<lambda>ps. Inr [example_response_nan]\<rparr>)
       (Some (Fin 47.37)) (Some (Fin 8)) example_world =
     (\<lparr> code = 200, body = ReportBody example_result_nan 0 \<rparr>,
      \<lparr> db = db example_world,
        api_calls = [DirectGet example_params, ClientCall example_params] \<rparr>)"
proof -
  have c: "api_calls example_world = []" by (simp add: example_world_def)
  have l: "length (data example_result) = 1" "data example_result_nan = []"
    by (simp_all add: example_result_def example_result_nan_def)
  from weather_report_persists[of example_env "Some (Fin 47.37)" "Some (Fin 8)" example_world
      example_result "[DirectGet example_params, ClientCall example_params]"]
    weather_report_persists[of "example_env\<lparr>weather_api := \<lambda>ps. Inr [example_response_nan]\<rparr>"
      "Some (Fin 47.37)" "Some (Fin 8)" example_world
      example_result_nan "[DirectGet example_params, ClientCall example_params]"]
    example_fetch example_fetch_nan c l
  show ?thesis by auto
qed

text \<open>
  C9. A latitude is accepted exactly when it is a finite number of \<open>[-90, 90]\<close>, a longitude
  exactly when it is one of \<open>[-180, 180]\<close>. With a coordinate outside its range
  \<open>fetch_weather_data\<close> raises \<open>ValueError\<close> before any API request, and \<open>/weather-report\<close>
  answers 400 with the database and the log of API requests unchanged. With both
  coordinates inside, \<open>fetch_weather_data\<close> raises no \<open>ValueError\<close> and the route does not
  answer 400.
\<close>

theorem coordinate_validation:
  "(valid_latitude lat \<longleftrightarrow> (\<exists>x. lat = Fin x \<and> - 90 \<le> x \<and> x \<le> 90)) \<and>
   (valid_longitude lon \<longleftrightarrow> (\<exists>x. lon = Fin x \<and> - 180 \<le> x \<and> x \<le> 180)) \<and>
   (\<not> valid_latitude lat \<or> \<not> valid_longitude lon \<longrightarrow>
      (\<exists>m. fetch_weather_data e (Some lat) (Some lon) days calls = (Inl (ValueError m), calls)) \<and>
      (\<exists>b. get_weather_report e (Some lat) (Some lon) w = (\<lparr> code = 400, body = b \<rparr>, w))) \<and>
   (valid_latitude lat \<and> valid_longitude lon \<longrightarrow>
      (\<forall>m. fst (fetch_weather_data e (Some lat) (Some lon) days calls) \<noteq> Inl (ValueError m)) \<and>
      code (fst (get_weather_report e (Some lat) (Some lon) w)) \<noteq> 400)"
proof -
  have bad: "(\<exists>m. fetch_weather_data e (Some lat) (Some lon) days calls = (Inl (ValueError m), calls)) \<and>
      (\<exists>b. get_weather_report e (Some lat) (Some lon) w = (\<lparr> code = 400, body = b \<rparr>, w))"
    if "\<not> valid_latitude lat \<or> \<not> valid_longitude lon"
    using that by (auto simp: fetch_weather_data_def get_weather_report_def)
  have good1: "fst (fetch_weather_data e (Some lat) (Some lon) days calls) \<noteq> Inl (ValueError m)"
    if "valid_latitude lat \<and> valid_longitude lon" for m
    using that
    by (auto simp: fetch_weather_data_def Let_def split: option.splits prod.splits sum.splits)
  have good2: "code (fst (get_weather_report e (Some lat) (Some lon) w)) \<noteq> 400"
    if "valid_latitude lat \<and> valid_longitude lon"
    using that
    by (auto simp: get_weather_report_def split: prod.splits sum.splits)
  from bad good1 good2 valid_latitude_iff[of lat] valid_longitude_iff[of lon]
  show ?thesis by blast
qed

theorem coordinate_validation_witness:
  "\<not> valid_latitude (Fin 91) \<and>
   (\<exists>m. fetch_weather_data example_env (Some (Fin 91)) (Some (Fin 8)) 2 [] =
          (Inl (ValueError m), [])) \<and>
   (\<exists>b. get_weather_report example_env (Some (Fin 91)) (Some (Fin 8)) example_world =
          (\<lparr> code = 400, body = b \<rparr>, example_world)) \<and>
   valid_latitude (Fin 47.37) \<and> valid_longitude (Fin 8) \<and>
   (\<forall>m. fst (fetch_weather_data example_env (Some (Fin 47.37)) (Some (Fin 8)) 2 [])
          \<noteq> Inl (ValueError m)) \<and>
   code (fst (get_weather_report example_env (Some (Fin 47.37)) (Some (Fin 8)) example_world))
     \<noteq> 400"
  using coordinate_validation[of "Fin 91" "Fin 8" example_env 2 "[]" example_world]
        coordinate_validation[of "Fin 47.37" "Fin 8" example_env 2 "[]" example_world]
        example_valid_coordinates
  by simp

section \<open>The report renderers\<close>

lemma to_datetime_all_Inl:
  "to_datetime_all e xs = Inl err \<Longrightarrow> \<exists>x \<in> set xs. to_datetime e x = Inl err"
  by (induction xs) (auto split: sum.splits)

lemma to_datetime_all_length:
  "to_datetime_all e xs = Inr ns \<Longrightarrow> length ns = length xs"
  by (induction xs arbitrary: ns) (auto split: sum.splits)

text \<open>
  C7. Rendering a report changes nothing: \<open>get_recent_data\<close>, the two renderers and the two
  export routes return the database (and the rest of the state) they were given. The
  renderers see the table only through \<open>get_recent_data\<close>: on two databases for which it
  returns the same rows they produce the same result.
\<close>

theorem renderers_leave_table_unchanged:
  "snd (get_recent_data e hours d) = d \<and>
   snd (generate_excel_report e hours d) = d \<and>
   snd (generate_pdf_report e hours d) = d \<and>
   snd (export_excel e arg w) = w \<and>
   snd (export_pdf e arg w) = w \<and>
   (fst (get_recent_data e hours d) = fst (get_recent_data e hours d2) \<longrightarrow>
      fst (generate_excel_report e hours d) = fst (generate_excel_report e hours d2) \<and>
      fst (generate_pdf_report e hours d) = fst (generate_pdf_report e hours d2))"
proof -
  have "fst (generate_excel_report e hours d) = fst (generate_excel_report e hours d2) \<and>
        fst (generate_pdf_report e hours d) = fst (generate_pdf_report e hours d2)"
    if "fst (get_recent_data e hours d) = fst (get_recent_data e hours d2)"
  proof -
    obtain rs1 d1 where g1: "get_recent_data e hours d = (rs1, d1)"
      by (cases "get_recent_data e hours d")
    obtain rs2 d2' where g2: "get_recent_data e hours d2 = (rs2, d2')"
      by (cases "get_recent_data e hours d2")
    from that g1 g2 have "rs1 = rs2" by simp
    with g1 g2 show ?thesis
      by (simp add: generate_excel_report_def generate_pdf_report_def Let_def split: sum.splits)
  qed
  then show ?thesis by simp
qed

theorem renderers_leave_table_unchanged_witness:
  "fst (get_recent_data example_env 48 example_db) =
     fst (get_recent_data example_env 48 (example_db\<lparr>sequence := 5\<rparr>)) \<and>
   fst (generate_excel_report example_env 48 example_db) =
     fst (generate_excel_report example_env 48 (example_db\<lparr>sequence := 5\<rparr>)) \<and>
   fst (generate_pdf_report example_env 48 example_db) =
     fst (generate_pdf_report example_env 48 (example_db\<lparr>sequence := 5\<rparr>)) \<and>
   snd (generate_pdf_report example_env 48 example_db) = example_db \<and>
   snd (export_excel example_env None example_world) = example_world"
proof -
  have h: "fst (get_recent_data example_env 48 example_db) =
     fst (get_recent_data example_env 48 (example_db\<lparr>sequence := 5\<rparr>))"
    by (simp add: get_recent_data_def)
  from renderers_leave_table_unchanged[of example_env 48 example_db None example_world
      "example_db\<lparr>sequence := 5\<rparr>"] h
  show ?thesis by simp
qed

lemma generate_excel_report_empty:
  "fst (get_recent_data e hours d) = [] \<Longrightarrow>
   generate_excel_report e hours d = (Inl (ValueError ''No weather data available''), d)"
  by (simp add: generate_excel_report_def get_recent_data_def)

lemma generate_pdf_report_empty:
  "fst (get_recent_data e hours d) = [] \<Longrightarrow>
   generate_pdf_report e hours d = (Inl (ValueError ''No weather data available''), d)"
  by (simp add: generate_pdf_report_def get_recent_data_def)

lemma generate_excel_report_nonempty:
  assumes "fst (get_recent_data e hours d) \<noteq> []"
    and "fst (generate_excel_report e hours d) = Inl err"
  shows "(\<exists>r \<in> set (fst (get_recent_data e hours d)). to_datetime e (row_timestamp r) = Inl err) \<or>
         (\<exists>df. write_excel e df = Inl err)"
proof -
  obtain rs d' where g: "get_recent_data e hours d = (rs, d')"
    by (cases "get_recent_data e hours d")
  show ?thesis
  proof (cases "to_datetime_all e (map row_timestamp rs)")
    case (Inl err')
    with assms g have "err' = err" by (simp add: generate_excel_report_def)
    with Inl to_datetime_all_Inl[of e "map row_timestamp rs" err] g show ?thesis by auto
  next
    case (Inr ts)
    with assms g show ?thesis by (auto simp: generate_excel_report_def Let_def)
  qed
qed

lemma generate_pdf_report_nonempty:
  assumes "fst (get_recent_data e hours d) \<noteq> []"
    and "fst (generate_pdf_report e hours d) = Inl err"
  shows "(\<exists>r \<in> set (fst (get_recent_data e hours d)). to_datetime e (row_timestamp r) = Inl err) \<or>
         (\<exists>html. write_pdf e html = Inl err)"
proof -
  obtain rs d' where g: "get_recent_data e hours d = (rs, d')"
    by (cases "get_recent_data e hours d")
  show ?thesis
  proof (cases "to_datetime_all e (map row_timestamp rs)")
    case (Inl err')
    with assms g have "err' = err" by (simp add: generate_pdf_report_def)
    with Inl to_datetime_all_Inl[of e "map row_timestamp rs" err] g show ?thesis by auto
  next
    case (Inr ts)
    with assms g show ?thesis by (auto simp: generate_pdf_report_def Let_def)
  qed
qed

text \<open>
  C10, as the code has it. For every \<open>hours\<close>, when \<open>get_recent_data\<close> returns no rows both
  renderers raise \<open>ValueError\<close> and leave the database unchanged. The export routes answer
  404 in that case when \<open>hours\<close> is between 1 and 168; for any other \<open>hours\<close> they answer 400
  before the renderer is called. In both cases the state is unchanged. When at least one
  row is returned, an error of a renderer is one that \<open>pd.to_datetime\<close> raised on a row's
  timestamp or that the writer raised.
\<close>

theorem empty_window_error:
  "(fst (get_recent_data e hours d) = [] \<longrightarrow>
      (\<exists>m. generate_excel_report e hours d = (Inl (ValueError m), d)) \<and>
      (\<exists>m. generate_pdf_report e hours d = (Inl (ValueError m), d))) \<and>
   (0 < hours_param arg \<and> hours_param arg \<le> 168 \<and>
    fst (get_recent_data e (hours_param arg) (db w)) = [] \<longrightarrow>
      (\<exists>b. export_excel e arg w = (\<lparr> code = 404, body = b \<rparr>, w)) \<and>
      (\<exists>b. export_pdf e arg w = (\<lparr> code = 404, body = b \<rparr>, w))) \<and>
   (hours_param arg \<le> 0 \<or> 168 < hours_param arg \<longrightarrow>
      (\<exists>b. export_excel e arg w = (\<lparr> code = 400, body = b \<rparr>, w)) \<and>
      (\<exists>b. export_pdf e arg w = (\<lparr> code = 400, body = b \<rparr>, w))) \<and>
   (fst (get_recent_data e hours d) \<noteq> [] \<longrightarrow>
      (\<forall>err. fst (generate_excel_report e hours d) = Inl err \<longrightarrow>
         (\<exists>r \<in> set (fst (get_recent_data e hours d)). to_datetime e (row_timestamp r) = Inl err) \<or>
         (\<exists>df. write_excel e df = Inl err)) \<and>
      (\<forall>err. fst (generate_pdf_report e hours d) = Inl err \<longrightarrow>
         (\<exists>r \<in> set (fst (get_recent_data e hours d)). to_datetime e (row_timestamp r) = Inl err) \<or>
         (\<exists>html. write_pdf e html = Inl err)))"
proof -
  have a: "(\<exists>m. generate_excel_report e hours d = (Inl (ValueError m), d)) \<and>
      (\<exists>m. generate_pdf_report e hours d = (Inl (ValueError m), d))"
    if "fst (get_recent_data e hours d) = []"
    using generate_excel_report_empty[OF that] generate_pdf_report_empty[OF that] by simp
  have b: "(\<exists>b. export_excel e arg w = (\<lparr> code = 404, body = b \<rparr>, w)) \<and>
      (\<exists>b. export_pdf e arg w = (\<lparr> code = 404, body = b \<rparr>, w))"
    if "0 < hours_param arg \<and> hours_param arg \<le> 168 \<and>
        fst (get_recent_data e (hours_param arg) (db w)) = []"
  proof -
    from that have e: "fst (get_recent_data e (hours_param arg) (db w)) = []" by simp
    from that generate_excel_report_empty[OF e] generate_pdf_report_empty[OF e]
    show ?thesis
      by (simp add: export_excel_def export_pdf_def export_error_def Let_def)
  qed
  have c: "(\<exists>b. export_excel e arg w = (\<lparr> code = 400, body = b \<rparr>, w)) \<and>
      (\<exists>b. export_pdf e arg w = (\<lparr> code = 400, body = b \<rparr>, w))"
    if "hours_param arg \<le> 0 \<or> 168 < hours_param arg"
    using that by (auto simp: export_excel_def export_pdf_def Let_def)
  from a b c generate_excel_report_nonempty[of e hours d]
    generate_pdf_report_nonempty[of e hours d]
  show ?thesis by blast
qed

theorem empty_window_error_witness:
  "fst (get_recent_data example_env 48 (db empty_world)) = [] \<and>
   (\<exists>m. generate_excel_report example_env 48 (db empty_world)
          = (Inl (ValueError m), db empty_world)) \<and>
   (\<exists>m. generate_pdf_report example_env 48 (db empty_world)
          = (Inl (ValueError m), db empty_world)) \<and>
   (\<exists>b. export_excel example_env None empty_world = (\<lparr> code = 404, body = b \<rparr>, empty_world)) \<and>
   (\<exists>b. export_pdf example_env None empty_world = (\<lparr> code = 404, body = b \<rparr>, empty_world)) \<and>
   (\<exists>b. export_excel example_env (Some 0) empty_world
          = (\<lparr> code = 400, body = b \<rparr>, empty_world)) \<and>
   (\<exists>b. export_pdf example_env (Some 200) empty_world
          = (\<lparr> code = 400, body = b \<rparr>, empty_world)) \<and>
   fst (get_recent_data example_env 48 example_db) \<noteq> [] \<and>
   (\<forall>err. fst (generate_excel_report example_env 48 example_db) \<noteq> Inl err) \<and>
   (\<forall>err. fst (generate_pdf_report example_env 48 example_db) \<noteq> Inl err)"
proof -
  have e: "fst (get_recent_data example_env 48 (db empty_world)) = []"
    by (simp add: get_recent_data_def empty_world_def empty_db_def)
  have n: "fst (get_recent_data example_env 48 example_db) \<noteq> []"
    by (simp add: get_recent_data_def in_window_def example_env_def example_db_def
        example_row_def)
  have env: "\<And>t err. to_datetime example_env t \<noteq> Inl err"
    "\<And>df err. write_excel example_env df \<noteq> Inl err"
    "\<And>html err. write_pdf example_env html \<noteq> Inl err"
    by (simp_all add: example_env_def example_to_datetime_def)
  have h: "hours_param None = 48" "hours_param (Some 0) = 0" "hours_param (Some 200) = 200"
    by (simp_all add: hours_param_def)
  from empty_window_error[of example_env 48 "db empty_world" None empty_world]
    empty_window_error[of example_env 48 example_db "Some 0" empty_world]
    empty_window_error[of example_env 48 example_db "Some 200" empty_world]
    e n env h
  show ?thesis by simp
qed

text \<open>
  C10 as stated fails for \<open>hours = 0\<close>: the window is empty and the routes answer 400.
\<close>

theorem export_answers_400_on_empty_window:
  "fst (get_recent_data example_env 0 (db empty_world)) = [] \<and>
   export_excel example_env (Some 0) empty_world =
     (\<lparr> code = 400, body = ErrorBody ''Invalid hours parameter (1-168)'' [] \<rparr>, empty_world) \<and>
   export_pdf example_env (Some 0) empty_world =
     (\<lparr> code = 400, body = ErrorBody ''Invalid hours parameter (1-168)'' [] \<rparr>, empty_world)"
  by (simp add: get_recent_data_def empty_world_def empty_db_def export_excel_def
      export_pdf_def hours_param_def)

section \<open>The statistics of the PDF report\<close>

lemma dropna_conv: "dropna xs = map the (filter (\<lambda>v. v \<noteq> None \<and> \<not> isnan (the v)) xs)"
  by (induction xs rule: dropna.induct) auto

lemma mset_dropna:
  assumes "mset xs = mset ys"
  shows "mset (dropna xs) = mset (dropna ys)"
proof -
  have "mset (dropna zs) = image_mset the (filter_mset (\<lambda>v. v \<noteq> None \<and> \<not> isnan (the v)) (mset zs))"
    for zs by (simp add: dropna_conv)
  with assms show ?thesis by simp
qed

lemma column_sorted:
  assumes "length ts = length rs"
  shows "mset (map (\<lambda>(t, r). g r) (sort_key fst (zip ts rs))) = mset (map g rs)"
proof -
  have f: "(\<lambda>(t, r). g r) = (\<lambda>p. g (snd p))" by (simp add: fun_eq_iff)
  have "mset (map (\<lambda>p. g (snd p)) (sort_key fst (zip ts rs))) =
        mset (map (\<lambda>p. g (snd p)) (zip ts rs))"
    by simp
  also have "map (\<lambda>p. g (snd p)) (zip ts rs) = map g (map snd (zip ts rs))"
    by simp
  also have "map snd (zip ts rs) = rs"
    using assms by (simp add: map_snd_zip)
  finally show ?thesis by (simp only: f)
qed

lemma mset_map_Fin:
  assumes "mset vs = mset (map Fin xs)"
  obtains ys where "vs = map Fin ys" "mset ys = mset xs"
proof
  from assms have "set vs = set (map Fin xs)" by (rule mset_eq_setD)
  then have "\<forall>v \<in> set vs. Fin (unfin v) = v" by auto
  then show "vs = map Fin (map unfin vs)" by (simp add: map_idI)
  from assms have "image_mset unfin (mset vs) = image_mset unfin (mset (map Fin xs))" by simp
  then show "mset (map unfin vs) = mset xs" by (simp add: multiset.map_comp comp_def)
qed

lemma foldl_fmax_Fin: "foldl fmax (Fin a) (map Fin ys) = Fin (fold max ys a)"
  by (induction ys arbitrary: a) (simp_all add: fmax_def max_def)

lemma foldl_fmin_Fin: "foldl fmin (Fin a) (map Fin ys) = Fin (fold min ys a)"
  by (induction ys arbitrary: a) (simp_all add: fmin_def min_def)

lemma series_of_finite:
  assumes "mset (dropna col) = mset (map Fin xs)" and "xs \<noteq> []"
  shows "series_max col = Fin (Max (set xs)) \<and> series_min col = Fin (Min (set xs))"
proof -
  from assms(1) obtain ys where ys: "dropna col = map Fin ys" and m: "mset ys = mset xs"
    by (rule mset_map_Fin)
  from m have l: "length ys = length xs" by (rule mset_eq_length)
  from m have t: "set ys = set xs" by (rule mset_eq_setD)
  from l assms(2) obtain y ys' where c: "ys = y # ys'" by (cases ys) auto
  have "series_max col = Fin (fold max ys' y)"
    unfolding series_max_def ys c by (simp add: foldl_fmax_Fin)
  also have "fold max ys' y = Max (set (y # ys'))" by (simp only: Max.set_eq_fold)
  finally have mx: "series_max col = Fin (Max (set xs))" unfolding c[symmetric] t .
  have "series_min col = Fin (fold min ys' y)"
    unfolding series_min_def ys c by (simp add: foldl_fmin_Fin)
  also have "fold min ys' y = Min (set (y # ys'))" by (simp only: Min.set_eq_fold)
  finally have mn: "series_min col = Fin (Min (set xs))" unfolding c[symmetric] t .
  from mx mn show ?thesis by simp
qed

lemma fmax_right_commute:
  "\<not> isnan x \<Longrightarrow> \<not> isnan y \<Longrightarrow> fmax (fmax a x) y = fmax (fmax a y) x"
  by (cases a; cases x; cases y) (auto simp: fmax_def)

lemma fmin_right_commute:
  "\<not> isnan x \<Longrightarrow> \<not> isnan y \<Longrightarrow> fmin (fmin a x) y = fmin (fmin a y) x"
  by (cases a; cases x; cases y) (auto simp: fmin_def)

lemma dropna_not_nan: "v \<in> set (dropna col) \<Longrightarrow> \<not> isnan v"
  by (induction col rule: dropna.induct) (auto split: if_splits)

lemma foldl_perm:
  assumes "mset vs = mset ws"
    and "\<And>a x y. x \<in> set vs \<Longrightarrow> y \<in> set vs \<Longrightarrow> f (f a x) y = f (f a y) x"
  shows "foldl f a vs = foldl f a ws"
proof -
  have "fold (\<lambda>x a. f a x) vs = fold (\<lambda>x a. f a x) ws"
    using assms(2) by (intro fold_multiset_equiv assms(1)) (simp add: fun_eq_iff)
  then show ?thesis by (simp add: foldl_conv_fold)
qed

lemma foldl_fmax_head:
  "\<not> isnan v \<Longrightarrow> foldl fmax v vs = foldl fmax NegInf (v # vs)"
  by (cases v) (simp_all add: fmax_def)

lemma foldl_fmin_head:
  "\<not> isnan v \<Longrightarrow> foldl fmin v vs = foldl fmin PosInf (v # vs)"
  by (cases v) (simp_all add: fmin_def)

lemma series_max_conv:
  "series_max col = (if dropna col = [] then NaN else foldl fmax NegInf (dropna col))"
proof (cases "dropna col")
  case Nil
  then show ?thesis by (simp add: series_max_def)
next
  case (Cons v vs)
  then have "\<not> isnan v" using dropna_not_nan[of v col] by simp
  from foldl_fmax_head[OF this, of vs] Cons show ?thesis by (simp add: series_max_def)
qed

lemma series_min_conv:
  "series_min col = (if dropna col = [] then NaN else foldl fmin PosInf (dropna col))"
proof (cases "dropna col")
  case Nil
  then show ?thesis by (simp add: series_min_def)
next
  case (Cons v vs)
  then have "\<not> isnan v" using dropna_not_nan[of v col] by simp
  from foldl_fmin_head[OF this, of vs] Cons show ?thesis by (simp add: series_min_def)
qed

lemma series_perm:
  assumes "mset c1 = mset c2"
  shows "series_max c1 = series_max c2 \<and> series_min c1 = series_min c2"
proof -
  from assms have m: "mset (dropna c1) = mset (dropna c2)" by (rule mset_dropna)
  then have e: "dropna c1 = [] \<longleftrightarrow> dropna c2 = []" by (metis mset_zero_iff)
  have "foldl fmax NegInf (dropna c1) = foldl fmax NegInf (dropna c2)"
    using m by (rule foldl_perm) (simp add: fmax_right_commute dropna_not_nan)
  with e have "series_max c1 = series_max c2" by (simp add: series_max_conv)
  moreover have "foldl fmin PosInf (dropna c1) = foldl fmin PosInf (dropna c2)"
    using m by (rule foldl_perm) (simp add: fmin_right_commute dropna_not_nan)
  with e have "series_min c1 = series_min c2" by (simp add: series_min_conv)
  ultimately show ?thesis by simp
qed

lemma series_of_present:
  assumes "dropna col = map Fin xs" and "xs \<noteq> []"
  shows "series_max col = Fin (Max (set xs)) \<and> series_min col = Fin (Min (set xs))"
proof -
  from assms(1) have "mset (dropna col) = mset (map Fin xs)" by simp
  from series_of_finite[OF this assms(2)] show ?thesis .
qed

lemma report_stats_of_rows:
  assumes "length ts = length recent"
  shows "report_stats e (sort_key fst (zip ts recent)) =
           \<lparr> temperature =
               \<lparr> avg = series_mean e
                         (map (\<lambda>(t, r). row_temperature_2m r) (sort_key fst (zip ts recent))),
                 maximum = series_max (map row_temperature_2m recent),
                 minimum = series_min (map row_temperature_2m recent) \<rparr>,
             humidity =
               \<lparr> avg = series_mean e
                         (map (\<lambda>(t, r). row_relative_humidity_2m r)
                            (sort_key fst (zip ts recent))),
                 maximum = series_max (map row_relative_humidity_2m recent),
                 minimum = series_min (map row_relative_humidity_2m recent) \<rparr> \<rparr>"
  unfolding report_stats_def Let_def
  using series_perm[OF column_sorted[OF assms, of row_temperature_2m]]
        series_perm[OF column_sorted[OF assms, of row_relative_humidity_2m]]
  by simp

lemma example_recent:
  "fst (get_recent_data example_env 48 example_table) = rev (rows example_table)"
  by (simp add: get_recent_data_def in_window_def example_env_def example_table_def)

text \<open>
  C6. Let the rows retrieved for the last \<open>hours\<close> hours be non-empty, with timestamps that
  pandas parses, and let \<open>df\<close> be these rows sorted by timestamp. The page handed to the PDF
  writer is the page of \<open>df\<close>, and the six cells of its statistics table are the mean, the
  maximum and the minimum of the temperature column and of the humidity column (the
  temperatures to two decimals, the humidities to one). Each column of \<open>df\<close> holds exactly
  the values of the retrieved rows; a missing value is skipped. The mean is the one pandas
  computes of the values present, the maximum and the minimum do not depend on the order
  of the rows, and where the values present are finite numbers, at least one, the maximum
  is their greatest and the minimum their least.
\<close>

theorem pdf_report_statistics:
  assumes "fst (get_recent_data e hours d) = recent" and "recent \<noteq> []"
    and "to_datetime_all e (map row_timestamp recent) = Inr ts"
    and "df = sort_key fst (zip ts recent)"
    and "temperature_col = map (\<lambda>(t, r). row_temperature_2m r) df"
    and "humidity_col = map (\<lambda>(t, r). row_relative_humidity_2m r) df"
  shows "generate_pdf_report e hours d = (write_pdf e (report_page e hours df), d) \<and>
         html_statistics (report_page e hours df) =
           [(''Average'', format_float e 2 (series_mean e temperature_col),
                         format_float e 1 (series_mean e humidity_col)),
            (''Maximum'', format_float e 2 (series_max temperature_col),
                         format_float e 1 (series_max humidity_col)),
            (''Minimum'', format_float e 2 (series_min temperature_col),
                         format_float e 1 (series_min humidity_col))] \<and>
         mset temperature_col = mset (map row_temperature_2m recent) \<and>
         mset humidity_col = mset (map row_relative_humidity_2m recent) \<and>
         series_mean e temperature_col =
           (if dropna temperature_col = [] then NaN else float_mean e (dropna temperature_col)) \<and>
         series_mean e humidity_col =
           (if dropna humidity_col = [] then NaN else float_mean e (dropna humidity_col)) \<and>
         series_max temperature_col = series_max (map row_temperature_2m recent) \<and>
         series_min temperature_col = series_min (map row_temperature_2m recent) \<and>
         series_max humidity_col = series_max (map row_relative_humidity_2m recent) \<and>
         series_min humidity_col = series_min (map row_relative_humidity_2m recent) \<and>
         (\<forall>temps. dropna (map row_temperature_2m recent) = map Fin temps \<and> temps \<noteq> [] \<longrightarrow>
            series_max temperature_col = Fin (Max (set temps)) \<and>
            series_min temperature_col = Fin (Min (set temps))) \<and>
         (\<forall>hums. dropna (map row_relative_humidity_2m recent) = map Fin hums \<and> hums \<noteq> [] \<longrightarrow>
            series_max humidity_col = Fin (Max (set hums)) \<and>
            series_min humidity_col = Fin (Min (set hums)))"
proof -
  from assms(3) have len: "length ts = length recent"
    using to_datetime_all_length by fastforce
  have tc: "mset temperature_col = mset (map row_temperature_2m recent)"
    unfolding assms(4,5) by (rule column_sorted[OF len])
  have hc: "mset humidity_col = mset (map row_relative_humidity_2m recent)"
    unfolding assms(4,6) by (rule column_sorted[OF len])
  note pt = series_perm[OF tc] and ph = series_perm[OF hc]
  from assms(1) have g: "get_recent_data e hours d = (recent, d)"
    by (simp add: get_recent_data_def)
  from g assms(2,3)
  have gen: "generate_pdf_report e hours d = (write_pdf e (report_page e hours df), d)"
    unfolding assms(4) by (simp add: generate_pdf_report_def Let_def)
  have page: "html_statistics (report_page e hours df) =
           [(''Average'', format_float e 2 (series_mean e temperature_col),
                         format_float e 1 (series_mean e humidity_col)),
            (''Maximum'', format_float e 2 (series_max temperature_col),
                         format_float e 1 (series_max humidity_col)),
            (''Minimum'', format_float e 2 (series_min temperature_col),
                         format_float e 1 (series_min humidity_col))]"
    unfolding assms(5,6)
    by (simp add: report_page_def generate_html_content_def report_stats_def Let_def)
  have mean: "series_mean e col = (if dropna col = [] then NaN else float_mean e (dropna col))"
    for col by (simp add: series_mean_def Let_def)
  have fin_t: "series_max temperature_col = Fin (Max (set temps)) \<and>
               series_min temperature_col = Fin (Min (set temps))"
    if "dropna (map row_temperature_2m recent) = map Fin temps \<and> temps \<noteq> []" for temps
    using series_of_present[of "map row_temperature_2m recent" temps] that pt by simp
  have fin_h: "series_max humidity_col = Fin (Max (set hums)) \<and>
               series_min humidity_col = Fin (Min (set hums))"
    if "dropna (map row_relative_humidity_2m recent) = map Fin hums \<and> hums \<noteq> []" for hums
    using series_of_present[of "map row_relative_humidity_2m recent" hums] that ph by simp
  from gen page tc hc mean[of temperature_col] mean[of humidity_col] pt ph fin_t fin_h
  show ?thesis by blast
qed

theorem pdf_report_statistics_witness:
  "fst (get_recent_data example_env 48 example_table) = rev (rows example_table) \<and>
   rev (rows example_table) \<noteq> [] \<and>
   to_datetime_all example_env (map row_timestamp (rev (rows example_table))) =
     Inr [7200000000000, 3600000000000, 0] \<and>
   sort_key fst (zip [7200000000000, 3600000000000, 0 :: int] (rev (rows example_table))) =
     zip [0, 3600000000000, 7200000000000] (rows example_table) \<and>
   map (\<lambda>(t, r). row_temperature_2m r)
     (zip [0, 3600000000000, 7200000000000 :: int] (rows example_table)) =
     [Some (Fin 20), Some (Fin 22), None] \<and>
   map (\<lambda>(t, r). row_relative_humidity_2m r)
     (zip [0, 3600000000000, 7200000000000 :: int] (rows example_table)) =
     [Some (Fin 50), Some (Fin 60), Some (Fin 55)] \<and>
   dropna (map row_temperature_2m (rev (rows example_table))) = map Fin [22, 20] \<and>
   dropna (map row_relative_humidity_2m (rev (rows example_table))) = map Fin [55, 60, 50] \<and>
   series_mean example_env [Some (Fin 20), Some (Fin 22), None] = Fin 21 \<and>
   series_max [Some (Fin 20), Some (Fin 22), None] = Fin 22 \<and>
   series_min [Some (Fin 20), Some (Fin 22), None] = Fin 20 \<and>
   series_mean example_env [Some (Fin 50), Some (Fin 60), Some (Fin 55)] = Fin 55 \<and>
   series_max [Some (Fin 50), Some (Fin 60), Some (Fin 55)] = Fin 60 \<and>
   series_min [Some (Fin 50), Some (Fin 60), Some (Fin 55)] = Fin 50 \<and>
   html_statistics
     (report_page example_env 48 (zip [0, 3600000000000, 7200000000000] (rows example_table))) =
     [(''Average'', ''21.00'', ''55.0''),
      (''Maximum'', ''22.00'', ''60.0''),
      (''Minimum'', ''20.00'', ''50.0'')] \<and>
   generate_pdf_report example_env 48 example_table =
     (Inr ''%PDF Average 21.00 55.0 Maximum 22.00 60.0 Minimum 20.00 50.0'', example_table)"
proof -
  let ?rs = "rev (rows example_table)"
  let ?df = "zip [0, 3600000000000, 7200000000000 :: int] (rows example_table)"
  let ?tc = "[Some (Fin 20), Some (Fin 22), None]"
  let ?hc = "[Some (Fin 50), Some (Fin 60), Some (Fin 55)]"
  have a: "?rs \<noteq> []" by (simp add: example_table_def)
  have b: "to_datetime_all example_env (map row_timestamp ?rs) =
     Inr [7200000000000, 3600000000000, 0]"
    by (simp add: example_table_def example_env_def example_to_datetime_def)
  have df: "?df = sort_key fst (zip [7200000000000, 3600000000000, 0] ?rs)"
    by (simp add: example_table_def)
  have tc: "?tc = map (\<lambda>(t, r). row_temperature_2m r) ?df"
    by (simp add: example_table_def)
  have hc: "?hc = map (\<lambda>(t, r). row_relative_humidity_2m r) ?df"
    by (simp add: example_table_def)
  have c: "dropna (map row_temperature_2m ?rs) = map Fin [22, 20]"
    by (simp add: example_table_def)
  have d: "dropna (map row_relative_humidity_2m ?rs) = map Fin [55, 60, 50]"
    by (simp add: example_table_def)
  note th = pdf_report_statistics[OF example_recent a b df tc hc]
  have env: "format_float example_env = example_format" "float_mean example_env = example_mean"
    by (simp_all add: example_env_def)
  note r2 = th[THEN conjunct2]
  note r5 = r2[THEN conjunct2, THEN conjunct2, THEN conjunct2]
  note r8 = r5[THEN conjunct2, THEN conjunct2, THEN conjunct2]
  note r11 = r8[THEN conjunct2, THEN conjunct2, THEN conjunct2]
  from r5[THEN conjunct1] have mt: "series_mean example_env ?tc = Fin 21"
    by (simp add: env example_mean_def)
  from r5[THEN conjunct2, THEN conjunct1] have mh: "series_mean example_env ?hc = Fin 55"
    by (simp add: env example_mean_def)
  from r11[THEN conjunct1, rule_format, of "[22, 20]"] c
  have xt: "series_max ?tc = Fin 22" "series_min ?tc = Fin 20"
    by simp_all
  from r11[THEN conjunct2, rule_format, of "[55, 60, 50]"] d
  have xh: "series_max ?hc = Fin 60" "series_min ?hc = Fin 50"
    by simp_all
  from r2[THEN conjunct1] have page: "html_statistics (report_page example_env 48 ?df) =
     [(''Average'', ''21.00'', ''55.0''),
      (''Maximum'', ''22.00'', ''60.0''),
      (''Minimum'', ''20.00'', ''50.0'')]"
    unfolding mt mh xt xh by (simp add: env example_format_def)
  have "write_pdf example_env (report_page example_env 48 ?df) =
     Inr ''%PDF Average 21.00 55.0 Maximum 22.00 60.0 Minimum 20.00 50.0''"
    unfolding example_env_def using page[unfolded example_env_def] by simp
  with th[THEN conjunct1] have gen: "generate_pdf_report example_env 48 example_table =
     (Inr ''%PDF Average 21.00 55.0 Maximum 22.00 60.0 Minimum 20.00 50.0'', example_table)"
    by simp
  from example_recent a b df[symmetric] tc[symmetric] hc[symmetric] c d mt mh xt xh page gen
  show ?thesis by (intro conjI)
qed

end
